theory Spec2Isabelle
  imports Complex_Main
begin

section \<open>Emotion recognition system: data model\<close>

text \<open>
  The theory embeds \<^verbatim>\<open>src/emotion_recognition.py\<close>. Python floats are modelled as
  \<^typ>\<open>real\<close> (the code only compares and subtracts them), a decoded image as the list of
  its pixel rows, and Python dictionaries whose order is observable (the per-class scores,
  JSON objects) as association lists. Everything a method does besides returning a value
  (printing, dialogs, starting a thread, calling the model, camera and window calls) is
  appended to an event trace carried in the state; the log directory is a map from paths
  to file contents.
\<close>

type_synonym frame = "nat list list"

type_synonym scores = "(string \<times> real) list"

type_synonym reading = "string \<times> real \<times> scores"

datatype py_error =
    ModelError
  | IndexError
  | KeyError
  | TypeError
  | AttributeError
  | JSONDecodeError
  | UnboundLocalError
  | CouldNotOpenWebcam
  | CameraDriverError

datatype 'a outcome = Raises py_error | Returns 'a

text \<open>One face of \<^verbatim>\<open>DeepFace.analyze\<close>'s result: the dictionary with the keys
  \<^verbatim>\<open>'dominant_emotion'\<close> and \<^verbatim>\<open>'emotion'\<close>. The call returns one such dictionary or a
  list of them.\<close>

record face =
  dominant_emotion :: string
  emotion :: scores

datatype analysis = Single face | Many "face list"

datatype json = JStr string | JNum real | JObj "(string \<times> json) list" | JArr "json list"

text \<open>\<^verbatim>\<open>json.dump\<close> writes to the open file as it goes: when it raises, what it wrote so
  far stays in the file.\<close>

datatype dump_result = Dumped string | DumpFailed string py_error

text \<open>The external collaborators, taken as parameters: the pretrained model and the
  JSON codec of the standard library (\<^verbatim>\<open>json.dump(obj, f, indent=n)\<close>, \<^verbatim>\<open>json.load\<close>).\<close>

record externals =
  analyze :: "frame \<Rightarrow> analysis outcome"
  json_dump :: "json \<Rightarrow> nat \<Rightarrow> dump_result"
  json_load :: "string \<Rightarrow> py_error + json"

datatype message =
    TTSWarning
  | CameraInitError py_error
  | DetectionError py_error
  | LoggingError py_error
  | StartBanner
  | FrameReadError
  | EmotionLine string real
  | VoiceStatus bool
  | ScreenshotSaved string
  | SystemStopped

datatype event =
    Print message
  | AnalyzeCall frame
  | SpeakThread real string int
  | CapRelease
  | DestroyAllWindows
  | Draw string real scores
  | ImShow
  | ImWrite string frame
  | ShowError string string
  | ShowInfo string message
  | VideoThreadStart
  | QueuePut frame string real
  | After nat

datatype capture = NoCapture | NotOpened | Opened | Released

text \<open>The attributes of \<^verbatim>\<open>EmotionRecognitionSystem\<close>, with the files under the working
  directory and the trace of effects. \<open>tts_engine\<close> is whether \<^verbatim>\<open>pyttsx3.init()\<close> gave an
  engine (\<^verbatim>\<open>self.tts_engine\<close> is \<^verbatim>\<open>None\<close> otherwise).\<close>

record system =
  cap :: capture
  is_running :: bool
  current_emotion :: string
  current_confidence :: real
  voice_enabled :: bool
  last_voice_time :: real
  voice_cooldown :: real
  tts_engine :: bool
  files :: "string \<rightharpoonup> string"
  trace :: "event list"

definition emit :: "event \<Rightarrow> system \<Rightarrow> system" where
  "emit e s = s\<lparr>trace := trace s @ [e]\<rparr>"

text \<open>\<^verbatim>\<open>EmotionRecognitionSystem.__init__\<close>; \<open>tts_ok\<close> is whether the speech engine could
  be initialised, \<open>fs\<close> the files that exist already.\<close>

definition system_init :: "bool \<Rightarrow> (string \<rightharpoonup> string) \<Rightarrow> system" where
  "system_init tts_ok fs =
     \<lparr>cap = NoCapture, is_running = False, current_emotion = ''Unknown'',
      current_confidence = 0, voice_enabled = True, last_voice_time = 0,
      voice_cooldown = 3, tts_engine = tts_ok, files = fs,
      trace = (if tts_ok then [] else [Print TTSWarning])\<rparr>"

section \<open>Emotion classifier adapter\<close>

definition unknown_reading :: reading where
  "unknown_reading = (''unknown'', 0, [])"

text \<open>\<^verbatim>\<open>if isinstance(result, list): result = result[0]\<close>; indexing an empty list
  raises.\<close>

definition first_face :: "analysis \<Rightarrow> py_error + face" where
  "first_face result =
     (case result of
        Many [] \<Rightarrow> Inl IndexError
      | Many (r # _) \<Rightarrow> Inr r
      | Single r \<Rightarrow> Inr r)"

text \<open>The body of the \<^verbatim>\<open>try\<close> block of \<^verbatim>\<open>detect_emotion\<close>: every exception it can raise
  is a left value. \<^typ>\<open>py_error\<close> stands for instances of \<^verbatim>\<open>Exception\<close>, which the
  \<^verbatim>\<open>except\<close> clause catches; a face always has its two keys, as the model returns them
  for the action \<^verbatim>\<open>'emotion'\<close>.\<close>

definition detect_emotion_try :: "externals \<Rightarrow> frame \<Rightarrow> py_error + reading" where
  "detect_emotion_try ext fr =
     (case analyze ext fr of
        Raises e \<Rightarrow> Inl e
      | Returns result \<Rightarrow>
          (case first_face result of
             Inl e \<Rightarrow> Inl e
           | Inr r \<Rightarrow>
               (case map_of (emotion r) (dominant_emotion r) of
                  None \<Rightarrow> Inl KeyError
                | Some confidence \<Rightarrow> Inr (dominant_emotion r, confidence, emotion r))))"

text \<open>\<^verbatim>\<open>detect_emotion\<close>: the \<^verbatim>\<open>except Exception\<close> clause prints and returns the
  sentinel.\<close>

definition detect_emotion :: "externals \<Rightarrow> frame \<Rightarrow> system \<Rightarrow> reading \<times> system" where
  "detect_emotion ext fr s =
     (let s1 = emit (AnalyzeCall fr) s in
      case detect_emotion_try ext fr of
        Inr r \<Rightarrow> (r, s1)
      | Inl e \<Rightarrow> (unknown_reading, emit (Print (DetectionError e)) s1))"

section \<open>Voice notifier\<close>

text \<open>Python's \<^verbatim>\<open>int(x)\<close> on a float truncates towards zero.\<close>

definition py_int :: "real \<Rightarrow> int" where
  "py_int x = (if 0 \<le> x then \<lfloor>x\<rfloor> else \<lceil>x\<rceil>)"

text \<open>\<^verbatim>\<open>speak_emotion\<close>; \<open>now\<close> is what \<^verbatim>\<open>time.time()\<close> returns when it is read. The
  speech itself runs in a thread of its own, which swallows its errors: the model records
  that the thread was started, with the time of the start.\<close>

definition speak_emotion :: "real \<Rightarrow> string \<Rightarrow> real \<Rightarrow> system \<Rightarrow> system" where
  "speak_emotion now emo confidence s =
     (if \<not> tts_engine s \<or> \<not> voice_enabled s then s
      else if now - last_voice_time s < voice_cooldown s then s
      else (emit (SpeakThread now emo (py_int confidence)) s)\<lparr>last_voice_time := now\<rparr>)"

text \<open>The times at which a speech thread was started, oldest first.\<close>

fun speak_times :: "event list \<Rightarrow> real list" where
  "speak_times [] = []"
| "speak_times (SpeakThread t _ _ # es) = t # speak_times es"
| "speak_times (_ # es) = speak_times es"

section \<open>Session logger\<close>

record datetime =
  year :: nat
  month :: nat
  day :: nat
  hour :: nat
  minute :: nat
  second :: nat
  microsecond :: nat

definition digit :: "nat \<Rightarrow> char" where
  "digit n = ''0123456789'' ! (n mod 10)"

definition zpad2 :: "nat \<Rightarrow> string" where
  "zpad2 n = [digit (n div 10), digit n]"

definition zpad4 :: "nat \<Rightarrow> string" where
  "zpad4 n = [digit (n div 1000), digit (n div 100), digit (n div 10), digit n]"

definition zpad6 :: "nat \<Rightarrow> string" where
  "zpad6 n = [digit (n div 100000), digit (n div 10000), digit (n div 1000),
              digit (n div 100), digit (n div 10), digit n]"

text \<open>\<^verbatim>\<open>strftime('%Y%m%d')\<close>, \<^verbatim>\<open>strftime('%Y%m%d_%H%M%S')\<close> and \<^verbatim>\<open>isoformat()\<close> of a
  \<^verbatim>\<open>datetime\<close> (years of four digits).\<close>

definition strftime_Ymd :: "datetime \<Rightarrow> string" where
  "strftime_Ymd d = zpad4 (year d) @ zpad2 (month d) @ zpad2 (day d)"

definition strftime_Ymd_HMS :: "datetime \<Rightarrow> string" where
  "strftime_Ymd_HMS d =
     strftime_Ymd d @ ''_'' @ zpad2 (hour d) @ zpad2 (minute d) @ zpad2 (second d)"

definition isoformat :: "datetime \<Rightarrow> string" where
  "isoformat d =
     zpad4 (year d) @ ''-'' @ zpad2 (month d) @ ''-'' @ zpad2 (day d) @ ''T'' @
     zpad2 (hour d) @ '':'' @ zpad2 (minute d) @ '':'' @ zpad2 (second d) @
     (if microsecond d = 0 then [] else ''.'' @ zpad6 (microsecond d))"

definition log_entry :: "datetime \<Rightarrow> string \<Rightarrow> real \<Rightarrow> scores \<Rightarrow> json" where
  "log_entry now emo confidence all_emotions =
     JObj [(''timestamp'', JStr (isoformat now)),
           (''dominant_emotion'', JStr emo),
           (''confidence'', JNum confidence),
           (''all_emotions'', JObj (map (\<lambda>(k, v). (k, JNum v)) all_emotions))]"

definition log_file_name :: "datetime \<Rightarrow> string" where
  "log_file_name now = ''logs/emotion_log_'' @ strftime_Ymd now @ ''.json''"

text \<open>Reading the existing logs: the empty list when the file does not exist, what
  \<^verbatim>\<open>json.load\<close> gives otherwise.\<close>

definition read_logs :: "externals \<Rightarrow> string \<Rightarrow> system \<Rightarrow> py_error + json" where
  "read_logs ext log_file s =
     (case files s log_file of
        None \<Rightarrow> Inr (JArr [])
      | Some content \<Rightarrow> json_load ext content)"

text \<open>The \<^verbatim>\<open>try\<close> block of \<^verbatim>\<open>log_emotion\<close>, with the exception it ends with, if any.
  \<^verbatim>\<open>logs.append\<close> exists on a list only; \<^verbatim>\<open>open(log_file, 'w')\<close> truncates the file
  before \<^verbatim>\<open>json.dump\<close> writes. Opening a file is taken to succeed: the errors modelled
  are those of the codec.\<close>

definition log_emotion_try ::
  "externals \<Rightarrow> json \<Rightarrow> string \<Rightarrow> system \<Rightarrow> py_error option \<times> system" where
  "log_emotion_try ext entry log_file s =
     (case read_logs ext log_file s of
        Inl e \<Rightarrow> (Some e, s)
      | Inr (JArr logs) \<Rightarrow>
          (case json_dump ext (JArr (logs @ [entry])) 2 of
             Dumped content \<Rightarrow> (None, s\<lparr>files := (files s)(log_file \<mapsto> content)\<rparr>)
           | DumpFailed partial e \<Rightarrow>
               (Some e, s\<lparr>files := (files s)(log_file \<mapsto> partial)\<rparr>))
      | Inr _ \<Rightarrow> (Some AttributeError, s))"

text \<open>\<^verbatim>\<open>log_emotion\<close>; \<open>now1\<close> and \<open>now2\<close> are its two readings of \<^verbatim>\<open>datetime.now()\<close>,
  for the record and for the file name.\<close>

definition log_emotion ::
  "externals \<Rightarrow> datetime \<Rightarrow> datetime \<Rightarrow> string \<Rightarrow> real \<Rightarrow> scores \<Rightarrow> system \<Rightarrow> system" where
  "log_emotion ext now1 now2 emo confidence all_emotions s =
     (case log_emotion_try ext (log_entry now1 emo confidence all_emotions)
             (log_file_name now2) s of
        (None, s') \<Rightarrow> s'
      | (Some e, s') \<Rightarrow> emit (Print (LoggingError e)) s')"

text \<open>One append as the loops issue it: the two clock readings and the reading logged.\<close>

record append =
  stamp_now :: datetime
  file_now :: datetime
  logged :: reading

definition entry_of :: "append \<Rightarrow> json" where
  "entry_of a = (case logged a of (emo, confidence, all_emotions) \<Rightarrow>
                   log_entry (stamp_now a) emo confidence all_emotions)"




section \<open>Camera and clean-up\<close>

text \<open>What \<^verbatim>\<open>cv2.VideoCapture(0)\<close> does when the session starts.\<close>

datatype camera_open = OpenRaises py_error | OpenFails | OpenOk

text \<open>\<^verbatim>\<open>initialize_camera\<close>: the capture object is stored before \<^verbatim>\<open>isOpened()\<close> is
  asked, so it stays in \<^verbatim>\<open>self.cap\<close> when the device did not open.\<close>

definition initialize_camera :: "camera_open \<Rightarrow> system \<Rightarrow> bool \<times> system" where
  "initialize_camera cam s =
     (case cam of
        OpenRaises e \<Rightarrow> (False, emit (Print (CameraInitError e)) s)
      | OpenFails \<Rightarrow>
          (False, emit (Print (CameraInitError CouldNotOpenWebcam)) (s\<lparr>cap := NotOpened\<rparr>))
      | OpenOk \<Rightarrow> (True, s\<lparr>cap := Opened\<rparr>))"

text \<open>\<^verbatim>\<open>cleanup\<close>; \<^verbatim>\<open>if self.cap:\<close> holds for every capture object, opened or not.\<close>

definition cleanup :: "system \<Rightarrow> system" where
  "cleanup s =
     (let s1 = s\<lparr>is_running := False\<rparr>;
          s2 = (if cap s1 \<noteq> NoCapture then emit CapRelease (s1\<lparr>cap := Released\<rparr>) else s1)
      in emit (Print SystemStopped) (emit DestroyAllWindows s2))"

section \<open>Loop controller: console mode\<close>

text \<open>What one iteration of a capture loop reads from outside: the camera
  (\<^verbatim>\<open>cap.read()\<close>, \<open>None\<close> when \<^verbatim>\<open>ret\<close> is false), \<^verbatim>\<open>time.time()\<close> and the two
  \<^verbatim>\<open>datetime.now()\<close> of the logger.\<close>

record tick =
  cam_read :: "frame option"
  time_now :: real
  log_now1 :: datetime
  log_now2 :: datetime

text \<open>The console loop also polls the keyboard (\<^verbatim>\<open>cv2.waitKey(1)\<close>) and reads the clock
  for a screenshot's name.\<close>

record console_tick = tick +
  wait_key :: int
  shot_now :: datetime

text \<open>\<^verbatim>\<open>cv2.flip(frame, 1)\<close> mirrors every row.\<close>

definition flip_horizontal :: "frame \<Rightarrow> frame" where
  "flip_horizontal fr = map rev fr"

text \<open>The block both loops run on a reading whose label is not \<^verbatim>\<open>"unknown"\<close>: store it,
  log it, and speak it when the confidence is above 70.\<close>

definition on_reading :: "externals \<Rightarrow> 'a tick_scheme \<Rightarrow> reading \<Rightarrow> system \<Rightarrow> system" where
  "on_reading ext t r s =
     (case r of (emo, confidence, all_emotions) \<Rightarrow>
        let s1 = s\<lparr>current_emotion := emo, current_confidence := confidence\<rparr>;
            s2 = log_emotion ext (log_now1 t) (log_now2 t) emo confidence all_emotions s1
        in if confidence > 70 then speak_emotion (time_now t) emo confidence s2 else s2)"

text \<open>The local variables of \<^verbatim>\<open>run_console_mode\<close>: \<^verbatim>\<open>all_emotions\<close> is unbound until the
  first classification assigns it.\<close>

record locals =
  frame_count :: nat
  all_emotions :: "scores option"

datatype ctl = Continue | Break

datatype 'a raising = Raised py_error system | Ok 'a

definition screenshot_name :: "string \<Rightarrow> datetime \<Rightarrow> string" where
  "screenshot_name prefix now = prefix @ ''_screenshot_'' @ strftime_Ymd_HMS now @ ''.jpg''"

text \<open>The classification step of the console loop (the body of
  \<^verbatim>\<open>if frame_count % 3 == 0\<close>).\<close>

definition console_classify ::
  "externals \<Rightarrow> console_tick \<Rightarrow> frame \<Rightarrow> locals \<times> system \<Rightarrow> locals \<times> system" where
  "console_classify ext t fr ls =
     (case ls of (l, s) \<Rightarrow>
        (case detect_emotion ext fr s of
           ((emo, confidence, scs), s1) \<Rightarrow>
             (l\<lparr>all_emotions := Some scs\<rparr>,
              if emo \<noteq> ''unknown''
              then emit (Print (EmotionLine emo confidence))
                     (on_reading ext t (emo, confidence, scs) s1)
              else s1)))"

text \<open>The key handling at the end of an iteration; \<^verbatim>\<open>ord('q')\<close>, \<^verbatim>\<open>ord('v')\<close> and
  \<^verbatim>\<open>ord('s')\<close> are 113, 118 and 115.\<close>

definition console_keys :: "console_tick \<Rightarrow> frame \<Rightarrow> system \<Rightarrow> ctl \<times> system" where
  "console_keys t fr s =
     (let k = wait_key t mod 256 in
      if k = 113 then (Break, s)
      else if k = 118 then
        (Continue, emit (Print (VoiceStatus (\<not> voice_enabled s)))
                     (s\<lparr>voice_enabled := \<not> voice_enabled s\<rparr>))
      else if k = 115 then
        (let filename = screenshot_name ''emotion'' (shot_now t)
         in (Continue, emit (Print (ScreenshotSaved filename)) (emit (ImWrite filename fr) s)))
      else (Continue, s))"

text \<open>Counting the frame and classifying every third one.\<close>

definition console_decimate ::
  "externals \<Rightarrow> console_tick \<Rightarrow> frame \<Rightarrow> locals \<times> system \<Rightarrow> locals \<times> system" where
  "console_decimate ext t fr ls =
     (case ls of (l, s) \<Rightarrow>
        (let l1 = l\<lparr>frame_count := frame_count l + 1\<rparr>
         in if frame_count l1 mod 3 = 0 then console_classify ext t fr (l1, s) else (l1, s)))"

text \<open>Drawing, showing and the keys. Reading \<^verbatim>\<open>all_emotions\<close> for the call of
  \<^verbatim>\<open>draw_emotion_info\<close> raises while it is unbound (\<^verbatim>\<open>hasattr(self, 'current_emotion')\<close>
  always holds). The frame shown and saved is the annotated one; the model keeps the pixels
  it was drawn on.\<close>

definition console_present ::
  "console_tick \<Rightarrow> frame \<Rightarrow> locals \<times> system \<Rightarrow> (ctl \<times> locals \<times> system) raising" where
  "console_present t fr ls =
     (case ls of (l, s) \<Rightarrow>
        (case all_emotions l of
           None \<Rightarrow> Raised UnboundLocalError s
         | Some scs \<Rightarrow>
             (case console_keys t fr
                     (emit ImShow (emit (Draw (current_emotion s) (current_confidence s) scs) s)) of
                (c, s') \<Rightarrow> Ok (c, l, s'))))"

text \<open>One iteration of the \<^verbatim>\<open>while\<close> loop of \<^verbatim>\<open>run_console_mode\<close>.\<close>

definition console_iteration ::
  "externals \<Rightarrow> console_tick \<Rightarrow> locals \<times> system \<Rightarrow> (ctl \<times> locals \<times> system) raising" where
  "console_iteration ext t ls =
     (case ls of (l, s) \<Rightarrow>
        (case cam_read t of
           None \<Rightarrow> Ok (Break, l, emit (Print FrameReadError) s)
         | Some raw \<Rightarrow>
             console_present t (flip_horizontal raw)
               (console_decimate ext t (flip_horizontal raw) (l, s))))"

text \<open>How a run of the console front end over finitely many ticks ends: the camera did
  not open, an exception left \<^verbatim>\<open>run_console_mode\<close>, the loop ended and \<^verbatim>\<open>cleanup\<close> ran, or
  the ticks were used up with the loop still going.\<close>

datatype run = NotStarted system | Crashed py_error system | Stopped system
  | StillRunning locals system

fun console_loop :: "externals \<Rightarrow> console_tick list \<Rightarrow> locals \<times> system \<Rightarrow> run" where
  "console_loop ext [] (l, s) = (if is_running s then StillRunning l s else Stopped (cleanup s))"
| "console_loop ext (t # ts) (l, s) =
     (if \<not> is_running s then Stopped (cleanup s)
      else case console_iteration ext t (l, s) of
             Raised e s' \<Rightarrow> Crashed e s'
           | Ok (Break, l', s') \<Rightarrow> Stopped (cleanup s')
           | Ok (Continue, l', s') \<Rightarrow> console_loop ext ts (l', s'))"

definition run_console_mode :: "externals \<Rightarrow> camera_open \<Rightarrow> console_tick list \<Rightarrow> system \<Rightarrow> run" where
  "run_console_mode ext cam ticks s =
     (case initialize_camera cam s of
        (False, s1) \<Rightarrow> NotStarted s1
      | (True, s1) \<Rightarrow>
          console_loop ext ticks
            (\<lparr>frame_count = 0, all_emotions = None\<rparr>,
             (emit (Print StartBanner) s1)\<lparr>is_running := True\<rparr>))"

section \<open>Graphical front end\<close>

text \<open>\<^verbatim>\<open>queue.Queue(maxsize)\<close> of the standard library: a size of 0 means no limit; \<^verbatim>\<open>put\<close>
  waits while the queue is full (\<open>None\<close>: the caller does not get past the call).\<close>

record 'a queue =
  maxsize :: nat
  items :: "'a list"

datatype queue_error = Empty

definition queue_new :: "nat \<Rightarrow> 'a queue" where
  "queue_new n = \<lparr>maxsize = n, items = []\<rparr>"

definition queue_full :: "'a queue \<Rightarrow> bool" where
  "queue_full q \<longleftrightarrow> 0 < maxsize q \<and> maxsize q \<le> length (items q)"

definition queue_empty :: "'a queue \<Rightarrow> bool" where
  "queue_empty q \<longleftrightarrow> items q = []"

definition queue_put :: "'a \<Rightarrow> 'a queue \<Rightarrow> 'a queue option" where
  "queue_put x q = (if queue_full q then None else Some (q\<lparr>items := items q @ [x]\<rparr>))"

definition queue_get_nowait :: "'a queue \<Rightarrow> queue_error + ('a \<times> 'a queue)" where
  "queue_get_nowait q =
     (case items q of [] \<Rightarrow> Inl Empty | x # xs \<Rightarrow> Inr (x, q\<lparr>items := xs\<rparr>))"

text \<open>An attribute that \<^verbatim>\<open>__init__\<close> does not create: absent, \<^verbatim>\<open>None\<close>, or a frame.\<close>

datatype attribute = Absent | PyNone | Holds frame

datatype label = LabelText string | LabelImage frame

text \<open>The attributes of \<^verbatim>\<open>EmotionGUI\<close> and the state of its widgets: whether each button
  is enabled, what the video label shows, and the label and confidence the two
  information labels were last formatted from. \<open>gui_is_running\<close> is the GUI's own
  \<^verbatim>\<open>is_running\<close>.\<close>

record gui =
  emotion_system :: system
  gui_is_running :: bool
  frame_queue :: "(frame \<times> string \<times> real) queue"
  current_frame :: attribute
  start_button :: bool
  stop_button :: bool
  video_label :: label
  info_labels :: "string \<times> real"

definition on_system :: "(system \<Rightarrow> system) \<Rightarrow> gui \<Rightarrow> gui" where
  "on_system f g = g\<lparr>emotion_system := f (emotion_system g)\<rparr>"

text \<open>\<^verbatim>\<open>EmotionGUI.__init__\<close> with \<^verbatim>\<open>setup_gui\<close>: the queue is created with no size.\<close>

definition gui_init :: "bool \<Rightarrow> (string \<rightharpoonup> string) \<Rightarrow> gui" where
  "gui_init tts_ok fs =
     \<lparr>emotion_system = system_init tts_ok fs, gui_is_running = False,
      frame_queue = queue_new 0, current_frame = Absent,
      start_button = True, stop_button = False,
      video_label = LabelText ''Camera feed will appear here'',
      info_labels = (''Unknown'', 0)\<rparr>"

text \<open>\<^verbatim>\<open>update_gui\<close>: one tick of the user interface, which asks to be called again
  after 30 ms while the session runs.\<close>

definition update_gui :: "gui \<Rightarrow> gui" where
  "update_gui g =
     (let g1 = (if \<not> queue_empty (frame_queue g)
                then (case queue_get_nowait (frame_queue g) of
                        Inr ((frame_tk, emo, confidence), q) \<Rightarrow>
                          g\<lparr>frame_queue := q, video_label := LabelImage frame_tk,
                            info_labels := (emo, confidence)\<rparr>
                      | Inl Empty \<Rightarrow> g)
                else g)
      in if gui_is_running g1 then on_system (emit (After 30)) g1 else g1)"

text \<open>\<^verbatim>\<open>start_camera\<close>.\<close>

definition start_camera :: "camera_open \<Rightarrow> gui \<Rightarrow> gui" where
  "start_camera cam g =
     (case initialize_camera cam (emotion_system g) of
        (True, s1) \<Rightarrow>
          update_gui (g\<lparr>emotion_system := emit VideoThreadStart s1, gui_is_running := True,
                        start_button := False, stop_button := True\<rparr>)
      | (False, s1) \<Rightarrow>
          g\<lparr>emotion_system := emit (ShowError ''Error'' ''Could not initialize camera'') s1\<rparr>)"

text \<open>\<^verbatim>\<open>stop_camera\<close>.\<close>

definition stop_camera :: "gui \<Rightarrow> gui" where
  "stop_camera g =
     g\<lparr>gui_is_running := False, emotion_system := cleanup (emotion_system g),
       start_button := True, stop_button := False,
       video_label := LabelText ''Camera stopped''\<rparr>"

text \<open>\<^verbatim>\<open>toggle_voice\<close>.\<close>

definition toggle_voice :: "gui \<Rightarrow> gui" where
  "toggle_voice g =
     on_system (\<lambda>s. let s1 = s\<lparr>voice_enabled := \<not> voice_enabled s\<rparr>
                     in emit (ShowInfo ''Voice Status'' (VoiceStatus (voice_enabled s1))) s1) g"

text \<open>\<^verbatim>\<open>take_screenshot\<close>; \<open>now\<close> is \<^verbatim>\<open>datetime.now()\<close>, read when a frame is there.\<close>

definition take_screenshot :: "datetime \<Rightarrow> gui \<Rightarrow> gui" where
  "take_screenshot now g =
     (case current_frame g of
        Holds fr \<Rightarrow>
          (let filename = screenshot_name ''gui'' now
           in on_system (\<lambda>s. emit (ShowInfo ''Screenshot'' (ScreenshotSaved filename))
                                 (emit (ImWrite filename fr) s)) g)
      | _ \<Rightarrow> g)"

text \<open>What the user does between two iterations of the video thread.\<close>

datatype ui_command = StopCamera | ToggleVoice | Screenshot datetime | UpdateGui

fun ui :: "ui_command \<Rightarrow> gui \<Rightarrow> gui" where
  "ui StopCamera g = stop_camera g"
| "ui ToggleVoice g = toggle_voice g"
| "ui (Screenshot now) g = take_screenshot now g"
| "ui UpdateGui g = update_gui g"

fun uis :: "ui_command list \<Rightarrow> gui \<Rightarrow> gui" where
  "uis [] g = g"
| "uis (c # cs) g = uis cs (ui c g)"

record video_tick = tick +
  ui_before :: "ui_command list"

text \<open>The classification step of the video thread (the body of
  \<^verbatim>\<open>if frame_count % 3 == 0\<close> in \<^verbatim>\<open>process_video\<close>).\<close>

definition video_classify :: "externals \<Rightarrow> 'a tick_scheme \<Rightarrow> frame \<Rightarrow> system \<Rightarrow> system" where
  "video_classify ext t fr s =
     (case detect_emotion ext fr s of
        ((emo, confidence, scs), s1) \<Rightarrow>
          if emo \<noteq> ''unknown'' then on_reading ext t (emo, confidence, scs) s1 else s1)"

text \<open>Where the video thread is: at the top of its loop with its frame counter, inside
  \<^verbatim>\<open>cap.read()\<close>, waiting in \<^verbatim>\<open>put\<close>, or returned from \<^verbatim>\<open>process_video\<close>.\<close>

datatype worker = LoopTop nat | InRead nat | InPut | Exited

text \<open>The test of \<^verbatim>\<open>while self.is_running\<close> and the call of \<^verbatim>\<open>cap.read()\<close>.\<close>

definition video_enter :: "gui \<Rightarrow> worker \<Rightarrow> worker" where
  "video_enter g w =
     (case w of
        LoopTop n \<Rightarrow> if gui_is_running g then InRead n else Exited
      | _ \<Rightarrow> w)"

text \<open>The rest of the iteration, from the return of \<^verbatim>\<open>cap.read()\<close> to \<^verbatim>\<open>put\<close>. The
  image put in the queue is the frame converted and resized for the toolkit; the model keeps
  the frame. A completed \<^verbatim>\<open>put\<close> is also recorded in the trace, so that what was published
  stays visible after the user interface took it from the queue.\<close>

definition video_finish :: "externals \<Rightarrow> 'a tick_scheme \<Rightarrow> worker \<times> gui \<Rightarrow> worker \<times> gui" where
  "video_finish ext t wg =
     (case wg of
        (InRead n, g) \<Rightarrow>
          (case cam_read t of
             None \<Rightarrow> (Exited, g)
           | Some raw \<Rightarrow>
               (let fr = flip_horizontal raw;
                    g1 = g\<lparr>current_frame := Holds fr\<rparr>;
                    n1 = n + 1;
                    g2 = (if n1 mod 3 = 0 then on_system (video_classify ext t fr) g1 else g1);
                    item = (fr, current_emotion (emotion_system g2),
                            current_confidence (emotion_system g2))
                in case queue_put item (frame_queue g2) of
                     None \<Rightarrow> (InPut, g2)
                   | Some q \<Rightarrow>
                       (LoopTop n1,
                        on_system (emit (QueuePut fr (current_emotion (emotion_system g2))
                                           (current_confidence (emotion_system g2))))
                          (g2\<lparr>frame_queue := q\<rparr>))))
      | _ \<Rightarrow> wg)"

text \<open>\<^verbatim>\<open>process_video\<close> over finitely many iterations, the user's commands running
  between them.\<close>

fun video_loop :: "externals \<Rightarrow> video_tick list \<Rightarrow> worker \<times> gui \<Rightarrow> worker \<times> gui" where
  "video_loop ext [] wg = wg"
| "video_loop ext (t # ts) (w, g) =
     (let g1 = uis (ui_before t) g
      in video_loop ext ts (video_finish ext t (video_enter g1 w, g1)))"

definition process_video :: "externals \<Rightarrow> video_tick list \<Rightarrow> gui \<Rightarrow> worker \<times> gui" where
  "process_video ext ticks g = video_loop ext ticks (LoopTop 0, g)"

text \<open>The two threads step by step: the user interface runs a command, or the video
  thread takes one of its two steps.\<close>

datatype step = Ui ui_command | VideoEnter | VideoFinish tick

fun interleave :: "externals \<Rightarrow> step list \<Rightarrow> worker \<times> gui \<Rightarrow> worker \<times> gui" where
  "interleave ext [] wg = wg"
| "interleave ext (Ui c # st) (w, g) = interleave ext st (w, ui c g)"
| "interleave ext (VideoEnter # st) (w, g) = interleave ext st (video_enter g w, g)"
| "interleave ext (VideoFinish t # st) (w, g) = interleave ext st (video_finish ext t (w, g))"

section \<open>Observations\<close>

text \<open>What the properties below read off a state or a run. Any two entries of a list of
  times are at least \<open>d\<close> apart, later minus earlier.\<close>

definition gaps_at_least :: "real \<Rightarrow> real list \<Rightarrow> bool" where
  "gaps_at_least d ts \<longleftrightarrow> (\<forall>i j. i < j \<and> j < length ts \<longrightarrow> d \<le> ts ! j - ts ! i)"

text \<open>The invariant of the voice notifier: the cooldown is the 3 seconds of \<^verbatim>\<open>__init__\<close>,
  the speech threads started so far are that far apart, and \<open>last_voice_time\<close> is the time of
  the last of them, 0 when there is none.\<close>

definition voice_inv :: "system \<Rightarrow> bool" where
  "voice_inv s \<longleftrightarrow>
     voice_cooldown s = 3 \<and> gaps_at_least 3 (speak_times (trace s)) \<and>
     last_voice_time s = (if speak_times (trace s) = [] then 0 else last (speak_times (trace s)))"

text \<open>The state a console run ends in.\<close>

definition run_system :: "run \<Rightarrow> system" where
  "run_system r = (case r of NotStarted s \<Rightarrow> s | Crashed e s \<Rightarrow> s | Stopped s \<Rightarrow> s
                   | StillRunning l s \<Rightarrow> s)"

text \<open>Whether a step started a speech thread: the times of the trace grew by the step's
  clock reading.\<close>

definition fired :: "real \<Rightarrow> system \<Rightarrow> system \<Rightarrow> bool" where
  "fired now s s' \<longleftrightarrow> speak_times (trace s') = speak_times (trace s) @ [now]"

definition silent :: "system \<Rightarrow> system \<Rightarrow> bool" where
  "silent s s' \<longleftrightarrow> speak_times (trace s') = speak_times (trace s)"

text \<open>The voice-relevant part of the state.\<close>

definition voice_of :: "system \<Rightarrow> real list \<times> real \<times> real \<times> bool \<times> bool" where
  "voice_of s = (speak_times (trace s), last_voice_time s, voice_cooldown s, tts_engine s,
                 voice_enabled s)"

text \<open>The exception \<^verbatim>\<open>initialize_camera\<close> catches when the camera does not open, and the
  state it leaves: the message printed, and the unopened capture object stored if one was
  created.\<close>

definition open_error :: "camera_open \<Rightarrow> py_error" where
  "open_error cam = (case cam of OpenRaises e \<Rightarrow> e | _ \<Rightarrow> CouldNotOpenWebcam)"

definition failed_open :: "camera_open \<Rightarrow> system \<Rightarrow> system" where
  "failed_open cam s =
     emit (Print (CameraInitError (open_error cam)))
       (s\<lparr>cap := (if cam = OpenFails then NotOpened else cap s)\<rparr>)"

text \<open>The state after an iteration whose frame was read.\<close>

definition after_frame :: "externals \<Rightarrow> 'a tick_scheme \<Rightarrow> frame \<Rightarrow> nat \<Rightarrow> gui \<Rightarrow> gui" where
  "after_frame ext t fr n g =
     (let s1 = (if n mod 3 = 0 then video_classify ext t fr (emotion_system g)
                else emotion_system g)
      in g\<lparr>current_frame := Holds fr,
           emotion_system :=
             emit (QueuePut fr (current_emotion s1) (current_confidence s1)) s1,
           frame_queue := (frame_queue g)
             \<lparr>items := items (frame_queue g) @ [(fr, current_emotion s1, current_confidence s1)]\<rparr>\<rparr>)"

text \<open>The state in which \<^verbatim>\<open>run_console_mode\<close> enters its loop.\<close>

definition console_started :: "system \<Rightarrow> system" where
  "console_started s = (emit (Print StartBanner) (s\<lparr>cap := Opened\<rparr>))\<lparr>is_running := True\<rparr>"

text \<open>The frames handed to the model and the readings put in the queue, oldest first.\<close>

fun analyze_calls :: "event list \<Rightarrow> frame list" where
  "analyze_calls [] = []"
| "analyze_calls (AnalyzeCall fr # es) = fr # analyze_calls es"
| "analyze_calls (_ # es) = analyze_calls es"

fun published :: "event list \<Rightarrow> (string \<times> real) list" where
  "published [] = []"
| "published (QueuePut _ emo c # es) = (emo, c) # published es"
| "published (_ # es) = published es"

text \<open>A tick on which the session goes on: a frame is read and the user does not stop.\<close>

definition steady :: "video_tick \<Rightarrow> bool" where
  "steady t \<longleftrightarrow> cam_read t \<noteq> None \<and> StopCamera \<notin> set (ui_before t)"

text \<open>The mirrored frame of tick \<open>k\<close>, ticks counted from 1.\<close>

definition frame_at :: "video_tick list \<Rightarrow> nat \<Rightarrow> frame" where
  "frame_at ticks k = (case cam_read (ticks ! (k - 1)) of None \<Rightarrow> [] | Some raw \<Rightarrow> flip_horizontal raw)"

text \<open>The decimation as the specification words it: the reading to render after tick \<open>k\<close>
  is the one computed on the last tick up to \<open>k\<close> that is a multiple of 3 and whose
  classification gave a label other than \<^verbatim>\<open>"unknown"\<close>, the starting one if there is none.\<close>

fun last_reading :: "externals \<Rightarrow> video_tick list \<Rightarrow> string \<times> real \<Rightarrow> nat \<Rightarrow> string \<times> real" where
  "last_reading ext ticks cur 0 = cur"
| "last_reading ext ticks cur (Suc k) =
     (if Suc k mod 3 = 0
      then (case detect_emotion_try ext (frame_at ticks (Suc k)) of
              Inr (emo, c, scs) \<Rightarrow>
                if emo \<noteq> ''unknown'' then (emo, c) else last_reading ext ticks cur k
            | Inl e \<Rightarrow> last_reading ext ticks cur k)
      else last_reading ext ticks cur k)"

text \<open>The label and confidence a state holds.\<close>

definition stored_reading :: "system \<Rightarrow> string \<times> real" where
  "stored_reading s = (current_emotion s, current_confidence s)"

text \<open>What the decimation theorem observes of a state.\<close>

definition loop_view :: "system \<Rightarrow> frame list \<times> (string \<times> real) list \<times> (string \<times> real)" where
  "loop_view s = (analyze_calls (trace s), published (trace s), stored_reading s)"

section \<open>Example inputs\<close>

definition example_scores :: scores where
  "example_scores = [(''angry'', 0.5), (''happy'', 82.3), (''sad'', 1.2)]"

definition example_face :: face where
  "example_face = \<lparr>dominant_emotion = ''happy'', emotion = example_scores\<rparr>"

definition example_time1 :: datetime where
  "example_time1 = \<lparr>year = 2024, month = 5, day = 17, hour = 10, minute = 30, second = 5,
                     microsecond = 250000\<rparr>"

definition example_time2 :: datetime where
  "example_time2 = \<lparr>year = 2024, month = 5, day = 17, hour = 10, minute = 30, second = 6,
                     microsecond = 0\<rparr>"

definition example_append1 :: append where
  "example_append1 = \<lparr>stamp_now = example_time1, file_now = example_time1,
                       logged = (''happy'', 82.3, example_scores)\<rparr>"

definition example_append2 :: append where
  "example_append2 = \<lparr>stamp_now = example_time2, file_now = example_time2,
                       logged = (''sad'', 40, [(''happy'', 35.5), (''sad'', 40)])\<rparr>"

definition example_text1 :: string where
  "example_text1 =
     ''[\<newline>  {\<newline>    \"timestamp\": \"2024-05-17T10:30:05.250000\",\<newline>'' @
     ''    \"dominant_emotion\": \"happy\",\<newline>    \"confidence\": 82.3,\<newline>'' @
     ''    \"all_emotions\": {\<newline>      \"angry\": 0.5,\<newline>      \"happy\": 82.3,\<newline>'' @
     ''      \"sad\": 1.2\<newline>    }\<newline>  }''"

definition example_text2 :: string where
  "example_text2 =
     '',\<newline>  {\<newline>    \"timestamp\": \"2024-05-17T10:30:06\",\<newline>'' @
     ''    \"dominant_emotion\": \"sad\",\<newline>    \"confidence\": 40.0,\<newline>'' @
     ''    \"all_emotions\": {\<newline>      \"happy\": 35.5,\<newline>      \"sad\": 40.0\<newline>'' @
     ''    }\<newline>  }''"

definition example_face_low :: face where
  "example_face_low = \<lparr>dominant_emotion = ''sad'', emotion = [(''happy'', 35.5), (''sad'', 40)]\<rparr>"

definition example_externals :: externals where
  "example_externals =
     \<lparr>analyze = (\<lambda>fr. if fr = [[5]] then Raises ModelError
                      else if fr = [[9]] then Returns (Many [])
                      else if fr = [[7]] then Returns (Single example_face_low)
                      else Returns (Single example_face)),
      json_dump = (\<lambda>v n.
         if n = 2 \<and> v = JArr [entry_of example_append1]
         then Dumped (example_text1 @ ''\<newline>]'')
         else if n = 2 \<and> v = JArr [entry_of example_append1, entry_of example_append2]
         then Dumped (example_text1 @ example_text2 @ ''\<newline>]'')
         else DumpFailed ''['' TypeError),
      json_load = (\<lambda>c.
         if c = example_text1 @ ''\<newline>]'' then Inr (JArr [entry_of example_append1])
         else if c = example_text1 @ example_text2 @ ''\<newline>]''
         then Inr (JArr [entry_of example_append1, entry_of example_append2])
         else Inl JSONDecodeError)\<rparr>"




definition example_tick :: "frame option \<Rightarrow> real \<Rightarrow> video_tick" where
  "example_tick fr now =
     \<lparr>cam_read = fr, time_now = now, log_now1 = example_time1, log_now2 = example_time1,
      ui_before = []\<rparr>"

definition example_video_ticks :: "video_tick list" where
  "example_video_ticks =
     [example_tick (Some [[0]]) 101, example_tick (Some [[0]]) 102,
      example_tick (Some [[20, 10], [40, 30]]) 103, example_tick (Some [[0]]) 104,
      example_tick (Some [[0]]) 105, example_tick (Some [[5]]) 106]"

definition example_gui :: gui where
  "example_gui = start_camera OpenOk (gui_init True Map.empty)"

definition example_console_tick :: "frame option \<Rightarrow> real \<Rightarrow> int \<Rightarrow> console_tick" where
  "example_console_tick fr now k =
     \<lparr>cam_read = fr, time_now = now, log_now1 = example_time1, log_now2 = example_time1,
      wait_key = k, shot_now = example_time2\<rparr>"

definition example_video_ticks7 :: "video_tick list" where
  "example_video_ticks7 = example_video_ticks @ [example_tick (Some [[0]]) 107]"

section \<open>Properties\<close>

text \<open>The defining equations, for evaluating the model on the example inputs.\<close>

lemmas model_defs = process_video_def video_enter_def video_finish_def video_classify_def
  on_reading_def on_system_def detect_emotion_def detect_emotion_try_def first_face_def
  log_emotion_def log_emotion_try_def read_logs_def log_entry_def log_file_name_def
  speak_emotion_def py_int_def emit_def queue_put_def queue_full_def queue_new_def
  flip_horizontal_def start_camera_def initialize_camera_def update_gui_def queue_empty_def
  gui_init_def system_init_def unknown_reading_def
  strftime_Ymd_def zpad4_def zpad2_def zpad6_def digit_def isoformat_def entry_of_def

lemmas example_defs = example_externals_def example_tick_def example_video_ticks_def example_gui_def
  example_face_def example_face_low_def example_scores_def example_time1_def example_time2_def
  example_append1_def example_append2_def

lemmas console_defs = console_classify_def console_decimate_def console_present_def
  console_iteration_def console_keys_def run_console_mode_def cleanup_def screenshot_name_def
  strftime_Ymd_HMS_def example_console_tick_def

lemma detect_emotion_try_Raises:
  "analyze ext fr = Raises e \<Longrightarrow> detect_emotion_try ext fr = Inl e"
  by (simp add: detect_emotion_try_def)

lemma detect_emotion_try_Returns:
  "analyze ext fr = Returns a \<Longrightarrow> first_face a = Inr r \<Longrightarrow>
   map_of (emotion r) (dominant_emotion r) = Some c \<Longrightarrow>
   detect_emotion_try ext fr = Inr (dominant_emotion r, c, emotion r)"
  by (simp add: detect_emotion_try_def)

lemma detect_emotion_reading:
  "fst (detect_emotion ext fr s) =
     (case detect_emotion_try ext fr of Inl e \<Rightarrow> unknown_reading | Inr r \<Rightarrow> r)"
  by (simp add: detect_emotion_def Let_def split: sum.splits)

subsection \<open>Classifier adapter\<close>





subsection \<open>Session logger\<close>


















subsection \<open>Voice notifier\<close>

lemma speak_times_append: "speak_times (xs @ ys) = speak_times xs @ speak_times ys"
  by (induction xs rule: speak_times.induct) auto

lemma speak_times_snoc:
  "speak_times (xs @ [e]) = speak_times xs @ (case e of SpeakThread t _ _ \<Rightarrow> [t] | _ \<Rightarrow> [])"
  by (cases e) (simp_all add: speak_times_append)

lemma voice_of_emit:
  "voice_of (emit e s) =
     (case e of SpeakThread t _ _ \<Rightarrow>
        (speak_times (trace s) @ [t], last_voice_time s, voice_cooldown s, tts_engine s,
         voice_enabled s)
      | _ \<Rightarrow> voice_of s)"
  by (cases e) (simp_all add: voice_of_def emit_def speak_times_snoc)

lemma voice_of_log_emotion: "voice_of (log_emotion ext n1 n2 emo c scs s) = voice_of s"
  by (auto simp: log_emotion_def log_emotion_try_def voice_of_emit
      split: sum.splits json.splits dump_result.splits prod.splits option.splits)
    (simp_all add: voice_of_def)

lemma voice_of_detect_emotion: "voice_of (snd (detect_emotion ext fr s)) = voice_of s"
  by (simp add: detect_emotion_def Let_def voice_of_emit split: sum.splits)

lemma voice_of_current [simp]:
  "voice_of (s\<lparr>current_emotion := e, current_confidence := c\<rparr>) = voice_of s"
  by (simp add: voice_of_def)

lemma voice_of_speak_emotion:
  "voice_of (speak_emotion now emo c s) =
     (if tts_engine s \<and> voice_enabled s \<and> voice_cooldown s \<le> now - last_voice_time s
      then (speak_times (trace s) @ [now], now, voice_cooldown s, tts_engine s, voice_enabled s)
      else voice_of s)"
  by (simp add: speak_emotion_def voice_of_def emit_def speak_times_snoc)

lemma voice_of_on_reading:
  "voice_of (on_reading ext t (emo, c, scs) s) =
     (if tts_engine s \<and> voice_enabled s \<and> 70 < c \<and>
         voice_cooldown s \<le> time_now t - last_voice_time s
      then (speak_times (trace s) @ [time_now t], time_now t, voice_cooldown s, tts_engine s,
            voice_enabled s)
      else voice_of s)"
proof -
  let ?s2 = "log_emotion ext (log_now1 t) (log_now2 t) emo c scs
              (s\<lparr>current_emotion := emo, current_confidence := c\<rparr>)"
  have v2: "voice_of ?s2 = voice_of s" by (simp add: voice_of_log_emotion)
  then have f: "tts_engine ?s2 = tts_engine s" "voice_enabled ?s2 = voice_enabled s"
    "voice_cooldown ?s2 = voice_cooldown s" "last_voice_time ?s2 = last_voice_time s"
    "speak_times (trace ?s2) = speak_times (trace s)"
    by (simp_all add: voice_of_def)
  show ?thesis
    by (simp add: on_reading_def Let_def voice_of_speak_emotion f v2)
qed

lemma voice_of_video_classify:
  "voice_of (video_classify ext t fr s) =
     (case fst (detect_emotion ext fr s) of (emo, c, scs) \<Rightarrow>
        if emo \<noteq> ''unknown'' \<and> tts_engine s \<and> voice_enabled s \<and> 70 < c \<and>
           voice_cooldown s \<le> time_now t - last_voice_time s
        then (speak_times (trace s) @ [time_now t], time_now t, voice_cooldown s, tts_engine s,
              voice_enabled s)
        else voice_of s)"
proof -
  obtain emo c scs s1 where d: "detect_emotion ext fr s = ((emo, c, scs), s1)"
    by (metis prod_cases3 surj_pair)
  have v1: "voice_of s1 = voice_of s" using voice_of_detect_emotion [of ext fr s] d by simp
  then have f: "tts_engine s1 = tts_engine s" "voice_enabled s1 = voice_enabled s"
    "voice_cooldown s1 = voice_cooldown s" "last_voice_time s1 = last_voice_time s"
    "speak_times (trace s1) = speak_times (trace s)"
    by (simp_all add: voice_of_def)
  show ?thesis
    by (simp add: video_classify_def d voice_of_on_reading f v1)
qed

lemma voice_of_console_classify:
  "voice_of (snd (console_classify ext t fr (l, s))) =
     (case fst (detect_emotion ext fr s) of (emo, c, scs) \<Rightarrow>
        if emo \<noteq> ''unknown'' \<and> tts_engine s \<and> voice_enabled s \<and> 70 < c \<and>
           voice_cooldown s \<le> time_now t - last_voice_time s
        then (speak_times (trace s) @ [time_now t], time_now t, voice_cooldown s, tts_engine s,
              voice_enabled s)
        else voice_of s)"
proof -
  obtain emo c scs s1 where d: "detect_emotion ext fr s = ((emo, c, scs), s1)"
    by (metis prod_cases3 surj_pair)
  have v1: "voice_of s1 = voice_of s" using voice_of_detect_emotion [of ext fr s] d by simp
  then have f: "tts_engine s1 = tts_engine s" "voice_enabled s1 = voice_enabled s"
    "voice_cooldown s1 = voice_cooldown s" "last_voice_time s1 = last_voice_time s"
    "speak_times (trace s1) = speak_times (trace s)"
    by (simp_all add: voice_of_def)
  show ?thesis
    by (simp add: console_classify_def d voice_of_on_reading voice_of_emit f v1)
qed

lemma gaps_at_least_snoc:
  assumes g: "gaps_at_least d ts" and d: "0 \<le> d"
    and l: "ts \<noteq> [] \<Longrightarrow> d \<le> now - last ts"
  shows "gaps_at_least d (ts @ [now])"
  unfolding gaps_at_least_def
proof (intro allI impI)
  fix i j assume ij: "i < j \<and> j < length (ts @ [now])"
  show "d \<le> (ts @ [now]) ! j - (ts @ [now]) ! i"
  proof (cases "j < length ts")
    case True
    with ij g show ?thesis by (simp add: gaps_at_least_def nth_append)
  next
    case False
    with ij have j: "j = length ts" by simp
    with ij have i: "i < length ts" by simp
    then have ne: "ts \<noteq> []" by auto
    have "ts ! i \<le> last ts"
    proof (cases "i = length ts - 1")
      case True
      then show ?thesis using ne by (simp add: last_conv_nth)
    next
      case False
      with i have "i < length ts - 1 \<and> length ts - 1 < length ts" by linarith
      with g have "d \<le> ts ! (length ts - 1) - ts ! i" unfolding gaps_at_least_def by blast
      with d show ?thesis using ne by (simp add: last_conv_nth)
    qed
    with l [OF ne] show ?thesis using j i by (simp add: nth_append)
  qed
qed

lemma voice_inv_same:
  "speak_times (trace s') = speak_times (trace s) \<Longrightarrow> last_voice_time s' = last_voice_time s \<Longrightarrow>
   voice_cooldown s' = voice_cooldown s \<Longrightarrow> voice_inv s \<Longrightarrow> voice_inv s'"
  by (simp add: voice_inv_def)

lemma voice_inv_voice_of:
  "fst (voice_of s') = fst (voice_of s) \<Longrightarrow> fst (snd (voice_of s')) = fst (snd (voice_of s)) \<Longrightarrow>
   fst (snd (snd (voice_of s'))) = fst (snd (snd (voice_of s))) \<Longrightarrow> voice_inv s \<Longrightarrow> voice_inv s'"
  by (simp add: voice_inv_def voice_of_def)

lemma voice_inv_fire:
  assumes inv: "voice_inv s"
    and v: "voice_of s' = (speak_times (trace s) @ [now], now, voice_cooldown s, a, b)"
    and cd: "voice_cooldown s \<le> now - last_voice_time s"
  shows "voice_inv s'"
proof -
  from v have st: "speak_times (trace s') = speak_times (trace s) @ [now]"
    and lv: "last_voice_time s' = now" and vc: "voice_cooldown s' = voice_cooldown s"
    by (simp_all add: voice_of_def)
  from inv have c3: "voice_cooldown s = 3" and g: "gaps_at_least 3 (speak_times (trace s))"
    and l: "last_voice_time s = (if speak_times (trace s) = [] then 0 else last (speak_times (trace s)))"
    by (simp_all add: voice_inv_def)
  have "gaps_at_least 3 (speak_times (trace s) @ [now])"
  proof (rule gaps_at_least_snoc [OF g])
    show "(0::real) \<le> 3" by simp
    assume "speak_times (trace s) \<noteq> []"
    with l cd c3 show "3 \<le> now - last (speak_times (trace s))" by simp
  qed
  with st lv vc c3 show ?thesis by (simp add: voice_inv_def)
qed

lemma voice_inv_step:
  assumes inv: "voice_inv s"
    and v: "voice_of s' =
      (if p \<and> voice_cooldown s \<le> now - last_voice_time s
       then (speak_times (trace s) @ [now], now, voice_cooldown s, a, b) else voice_of s)"
  shows "voice_inv s'"
proof (cases "p \<and> voice_cooldown s \<le> now - last_voice_time s")
  case True
  with v have "voice_of s' = (speak_times (trace s) @ [now], now, voice_cooldown s, a, b)" by simp
  with inv True show ?thesis by (blast intro: voice_inv_fire)
next
  case False
  with v have "voice_of s' = voice_of s" by simp
  with inv show ?thesis by (simp add: voice_inv_voice_of)
qed

lemma voice_inv_video_classify: "voice_inv s \<Longrightarrow> voice_inv (video_classify ext t fr s)"
proof -
  assume inv: "voice_inv s"
  obtain emo c scs where r: "fst (detect_emotion ext fr s) = (emo, c, scs)"
    by (metis prod_cases3)
  show ?thesis
    by (rule voice_inv_step [OF inv, where now = "time_now t" and a = "tts_engine s"
          and b = "voice_enabled s"
          and p = "emo \<noteq> ''unknown'' \<and> tts_engine s \<and> voice_enabled s \<and> 70 < c"])
      (simp add: voice_of_video_classify r)
qed

lemma voice_inv_console_classify:
  "voice_inv s \<Longrightarrow> voice_inv (snd (console_classify ext t fr (l, s)))"
proof -
  assume inv: "voice_inv s"
  obtain emo c scs where r: "fst (detect_emotion ext fr s) = (emo, c, scs)"
    by (metis prod_cases3)
  show ?thesis
    by (rule voice_inv_step [OF inv, where now = "time_now t" and a = "tts_engine s"
          and b = "voice_enabled s"
          and p = "emo \<noteq> ''unknown'' \<and> tts_engine s \<and> voice_enabled s \<and> 70 < c"])
      (simp add: voice_of_console_classify r)
qed

lemma voice_inv_emit: "speak_times [e] = [] \<Longrightarrow> voice_inv (emit e s) = voice_inv s"
  by (simp add: voice_inv_def emit_def speak_times_append)

lemma voice_inv_cleanup: "voice_inv (cleanup s) = voice_inv s"
  by (simp add: cleanup_def Let_def voice_inv_def emit_def speak_times_append)

lemma voice_inv_initialize_camera:
  "voice_inv (snd (initialize_camera cam s)) = voice_inv s"
  by (cases cam) (simp_all add: initialize_camera_def voice_inv_def emit_def speak_times_append)

lemma voice_inv_system_init: "voice_inv (system_init tts fs)"
  by (simp add: voice_inv_def system_init_def gaps_at_least_def)

text \<open>The invariant through the graphical loop.\<close>

lemma voice_inv_update_gui:
  "voice_inv (emotion_system (update_gui g)) = voice_inv (emotion_system g)"
  by (auto simp: update_gui_def Let_def on_system_def voice_inv_emit
      split: sum.splits prod.splits queue_error.splits)

lemma voice_inv_ui: "voice_inv (emotion_system (ui c g)) = voice_inv (emotion_system g)"
proof (cases c)
  case StopCamera
  then show ?thesis by (simp add: stop_camera_def voice_inv_cleanup)
next
  case ToggleVoice
  then show ?thesis
    by (simp add: toggle_voice_def on_system_def Let_def voice_inv_def emit_def speak_times_append)
next
  case (Screenshot now)
  then show ?thesis
    by (simp add: take_screenshot_def on_system_def Let_def voice_inv_emit split: attribute.splits)
next
  case UpdateGui
  then show ?thesis by (simp add: voice_inv_update_gui)
qed

lemma voice_inv_uis: "voice_inv (emotion_system (uis cs g)) = voice_inv (emotion_system g)"
  by (induction cs arbitrary: g) (simp_all add: voice_inv_ui)

lemma voice_inv_video_finish:
  "voice_inv (emotion_system g) \<Longrightarrow> voice_inv (emotion_system (snd (video_finish ext t (w, g))))"
  by (cases w)
    (auto simp: video_finish_def Let_def on_system_def voice_inv_video_classify voice_inv_emit
      split: option.splits)

lemma voice_inv_video_loop:
  "voice_inv (emotion_system g) \<Longrightarrow> voice_inv (emotion_system (snd (video_loop ext ticks (w, g))))"
proof (induction ticks arbitrary: w g)
  case Nil
  then show ?case by simp
next
  case (Cons t ticks)
  let ?g1 = "uis (ui_before t) g"
  obtain w2 g2 where f: "video_finish ext t (video_enter ?g1 w, ?g1) = (w2, g2)"
    by (cases "video_finish ext t (video_enter ?g1 w, ?g1)")
  have "voice_inv (emotion_system ?g1)" using Cons.prems by (simp add: voice_inv_uis)
  then have "voice_inv (emotion_system g2)"
    using voice_inv_video_finish [of ?g1 ext t "video_enter ?g1 w"] f by simp
  then show ?case using Cons.IH [of g2 w2] f by (simp add: Let_def)
qed

lemma voice_inv_start_camera:
  "voice_inv (emotion_system (start_camera cam g)) = voice_inv (emotion_system g)"
proof -
  obtain ok s1 where i: "initialize_camera cam (emotion_system g) = (ok, s1)"
    by (cases "initialize_camera cam (emotion_system g)")
  then have "voice_inv s1 = voice_inv (emotion_system g)"
    using voice_inv_initialize_camera [of cam "emotion_system g"] by simp
  then show ?thesis
    by (cases ok) (simp_all add: start_camera_def i voice_inv_update_gui voice_inv_emit)
qed

text \<open>The invariant through the console loop.\<close>

lemma voice_inv_console_keys: "voice_inv (snd (console_keys t fr s)) = voice_inv s"
  by (simp add: console_keys_def Let_def voice_inv_def emit_def speak_times_append)

lemma voice_inv_console_decimate:
  "voice_inv s \<Longrightarrow> voice_inv (snd (console_decimate ext t fr (l, s)))"
  by (simp add: console_decimate_def Let_def voice_inv_console_classify)

lemma voice_inv_console_present:
  assumes "voice_inv s"
  shows "case console_present t fr (l, s) of
           Raised e s' \<Rightarrow> voice_inv s' | Ok (c, l', s') \<Rightarrow> voice_inv s'"
proof (cases "all_emotions l")
  case None
  then show ?thesis using assms by (simp add: console_present_def)
next
  case (Some scs)
  let ?s3 = "emit ImShow (emit (Draw (current_emotion s) (current_confidence s) scs) s)"
  have "voice_inv ?s3" using assms by (simp add: voice_inv_emit)
  then have "voice_inv (snd (console_keys t fr ?s3))" by (simp add: voice_inv_console_keys)
  then show ?thesis using Some by (auto simp: console_present_def split: prod.splits)
qed

lemma voice_inv_console_iteration:
  assumes "voice_inv s"
  shows "case console_iteration ext t (l, s) of
           Raised e s' \<Rightarrow> voice_inv s' | Ok (c, l', s') \<Rightarrow> voice_inv s'"
proof (cases "cam_read t")
  case None
  then show ?thesis using assms by (simp add: console_iteration_def voice_inv_emit)
next
  case (Some raw)
  obtain l2 s2 where d: "console_decimate ext t (flip_horizontal raw) (l, s) = (l2, s2)"
    by (cases "console_decimate ext t (flip_horizontal raw) (l, s)")
  then have "voice_inv s2"
    using voice_inv_console_decimate [OF assms, of ext t "flip_horizontal raw" l] by simp
  from voice_inv_console_present [OF this, of t "flip_horizontal raw" l2]
  show ?thesis using Some d by (simp add: console_iteration_def)
qed

lemma voice_inv_console_loop:
  "voice_inv s \<Longrightarrow> voice_inv (run_system (console_loop ext ticks (l, s)))"
proof (induction ticks arbitrary: l s)
  case Nil
  then show ?case by (simp add: run_system_def voice_inv_cleanup)
next
  case (Cons t ticks)
  show ?case
  proof (cases "is_running s")
    case False
    then show ?thesis using Cons.prems by (simp add: run_system_def voice_inv_cleanup)
  next
    case True
    from voice_inv_console_iteration [OF Cons.prems, of ext t l] show ?thesis
      using True Cons.IH
      by (auto simp: run_system_def voice_inv_cleanup split: raising.splits ctl.splits)
  qed
qed

lemma voice_inv_run_console_mode:
  "voice_inv s \<Longrightarrow> voice_inv (run_system (run_console_mode ext cam ticks s))"
proof -
  assume inv: "voice_inv s"
  obtain ok s1 where i: "initialize_camera cam s = (ok, s1)"
    by (cases "initialize_camera cam s")
  then have inv1: "voice_inv s1" using voice_inv_initialize_camera [of cam s] inv by simp
  show ?thesis
  proof (cases ok)
    case False
    then show ?thesis using i inv1 by (simp add: run_console_mode_def run_system_def)
  next
    case True
    have "voice_inv ((emit (Print StartBanner) s1)\<lparr>is_running := True\<rparr>)"
      using inv1 by (simp add: voice_inv_def emit_def speak_times_append)
    then show ?thesis using i True by (simp add: run_console_mode_def voice_inv_console_loop)
  qed
qed

lemma fired_iff:
  assumes "voice_of s' = (if p then (speak_times (trace s) @ [now], x) else voice_of s)"
  shows "fired now s s' \<longleftrightarrow> p" and "\<not> fired now s s' \<longrightarrow> silent s s'"
  using assms by (auto simp: fired_def silent_def voice_of_def split: if_splits)

text \<open>Claim C2, as the code has it. On a classified reading, in either loop, a speech
  thread is started exactly when the speech engine was initialised, voice is enabled, the
  label is not \<^verbatim>\<open>"unknown"\<close>, the confidence is above 70 and the clock is at least the
  cooldown past \<open>last_voice_time\<close>; otherwise none is started, in particular never at a
  confidence of 70 or less nor with voice disabled. In every run of either front end from
  start-up, whatever the user does in between, the start times of the speech threads are
  pairwise at least 3 seconds apart.\<close>

theorem voice_notification_rule:
  assumes r: "fst (detect_emotion ext fr s) = (emo, c, scs)"
  shows "(fired (time_now t) s (video_classify ext t fr s) \<longleftrightarrow>
            tts_engine s \<and> voice_enabled s \<and> emo \<noteq> ''unknown'' \<and> 70 < c \<and>
            voice_cooldown s \<le> time_now t - last_voice_time s) \<and>
         (fired (time_now ct) s (snd (console_classify ext ct fr (l, s))) \<longleftrightarrow>
            tts_engine s \<and> voice_enabled s \<and> emo \<noteq> ''unknown'' \<and> 70 < c \<and>
            voice_cooldown s \<le> time_now ct - last_voice_time s) \<and>
         (\<not> fired (time_now t) s (video_classify ext t fr s) \<longrightarrow>
            silent s (video_classify ext t fr s)) \<and>
         (\<not> fired (time_now ct) s (snd (console_classify ext ct fr (l, s))) \<longrightarrow>
            silent s (snd (console_classify ext ct fr (l, s)))) \<and>
         (c \<le> 70 \<or> \<not> voice_enabled s \<longrightarrow>
            silent s (video_classify ext t fr s) \<and>
            silent s (snd (console_classify ext ct fr (l, s)))) \<and>
         gaps_at_least 3 (speak_times (trace (emotion_system
            (snd (process_video ext' ticks (start_camera cam (gui_init tts fs))))))) \<and>
         gaps_at_least 3 (speak_times (trace (run_system
            (run_console_mode ext' cam cticks (system_init tts fs)))))"
proof -
  let ?pv = "emo \<noteq> ''unknown'' \<and> tts_engine s \<and> voice_enabled s \<and> 70 < c \<and>
            voice_cooldown s \<le> time_now t - last_voice_time s"
  let ?pc = "emo \<noteq> ''unknown'' \<and> tts_engine s \<and> voice_enabled s \<and> 70 < c \<and>
            voice_cooldown s \<le> time_now ct - last_voice_time s"
  have v: "voice_of (video_classify ext t fr s) =
      (if ?pv then (speak_times (trace s) @ [time_now t], time_now t, voice_cooldown s,
                    tts_engine s, voice_enabled s) else voice_of s)"
    by (simp add: voice_of_video_classify r)
  have k: "voice_of (snd (console_classify ext ct fr (l, s))) =
      (if ?pc then (speak_times (trace s) @ [time_now ct], time_now ct, voice_cooldown s,
                    tts_engine s, voice_enabled s) else voice_of s)"
    by (simp add: voice_of_console_classify r)
  note fv = fired_iff [OF v] and fk = fired_iff [OF k]
  have 1: "fired (time_now t) s (video_classify ext t fr s) \<longleftrightarrow>
            tts_engine s \<and> voice_enabled s \<and> emo \<noteq> ''unknown'' \<and> 70 < c \<and>
            voice_cooldown s \<le> time_now t - last_voice_time s"
    using fv(1) by blast
  have 2: "fired (time_now ct) s (snd (console_classify ext ct fr (l, s))) \<longleftrightarrow>
            tts_engine s \<and> voice_enabled s \<and> emo \<noteq> ''unknown'' \<and> 70 < c \<and>
            voice_cooldown s \<le> time_now ct - last_voice_time s"
    using fk(1) by blast
  have 5: "c \<le> 70 \<or> \<not> voice_enabled s \<longrightarrow>
            silent s (video_classify ext t fr s) \<and>
            silent s (snd (console_classify ext ct fr (l, s)))"
    using 1 2 fv(2) fk(2) by auto
  have "voice_inv (emotion_system (start_camera cam (gui_init tts fs)))"
    by (simp add: voice_inv_start_camera gui_init_def voice_inv_system_init)
  then have "voice_inv (emotion_system (snd (process_video ext' ticks (start_camera cam (gui_init tts fs)))))"
    unfolding process_video_def by (rule voice_inv_video_loop)
  then have 6: "gaps_at_least 3 (speak_times (trace (emotion_system
            (snd (process_video ext' ticks (start_camera cam (gui_init tts fs)))))))"
    by (simp add: voice_inv_def)
  have "voice_inv (run_system (run_console_mode ext' cam cticks (system_init tts fs)))"
    by (rule voice_inv_run_console_mode) (rule voice_inv_system_init)
  then have 7: "gaps_at_least 3 (speak_times (trace (run_system
            (run_console_mode ext' cam cticks (system_init tts fs)))))"
    by (simp add: voice_inv_def)
  from 1 2 fv(2) fk(2) 5 6 7 show ?thesis by blast
qed

theorem voice_notification_rule_witness:
  "fired 103 (system_init True Map.empty)
     (video_classify example_externals (example_tick None 103) [[10, 20], [30, 40]] (system_init True Map.empty)) \<and>
   fired 103 (system_init True Map.empty)
     (snd (console_classify example_externals (example_console_tick None 103 (-1)) [[10, 20], [30, 40]]
        (\<lparr>frame_count = 3, all_emotions = None\<rparr>, system_init True Map.empty))) \<and>
   silent (system_init True Map.empty)
     (video_classify example_externals (example_tick None 103) [[7]] (system_init True Map.empty)) \<and>
   silent (system_init True Map.empty)
     (snd (console_classify example_externals (example_console_tick None 103 (-1)) [[7]]
        (\<lparr>frame_count = 3, all_emotions = None\<rparr>, system_init True Map.empty))) \<and>
   gaps_at_least 3 (speak_times (trace (emotion_system
     (snd (process_video example_externals example_video_ticks (start_camera OpenOk (gui_init True Map.empty))))))) \<and>
   speak_times (trace (emotion_system
     (snd (process_video example_externals example_video_ticks (start_camera OpenOk (gui_init True Map.empty)))))) = [103]"
proof -
  let ?s = "system_init True Map.empty"
  let ?t = "example_tick None 103"
  let ?ct = "example_console_tick None 103 (-1)"
  let ?l = "\<lparr>frame_count = 3, all_emotions = None\<rparr>"
  have hi: "fst (detect_emotion example_externals [[10, 20], [30, 40]] ?s) = (''happy'', 82.3, example_scores)"
    by (simp add: model_defs example_defs Let_def)
  have lo: "fst (detect_emotion example_externals [[7]] ?s) = (''sad'', 40, [(''happy'', 35.5), (''sad'', 40)])"
    by (simp add: model_defs example_defs Let_def)
  have st: "tts_engine ?s \<and> voice_enabled ?s \<and> voice_cooldown ?s \<le> time_now ?t - last_voice_time ?s
    \<and> voice_cooldown ?s \<le> time_now ?ct - last_voice_time ?s \<and> time_now ?t = 103 \<and> time_now ?ct = 103"
    by (simp add: system_init_def example_tick_def example_console_tick_def)
  note a = voice_notification_rule [OF hi, where t = ?t and ct = ?ct and l = ?l
      and ext' = example_externals and ticks = example_video_ticks and cam = OpenOk and tts = True
      and fs = Map.empty and cticks = "[]"]
  note b = voice_notification_rule [OF lo, where t = ?t and ct = ?ct and l = ?l
      and ext' = example_externals and ticks = example_video_ticks and cam = OpenOk and tts = True
      and fs = Map.empty and cticks = "[]"]
  have 1: "fired 103 ?s (video_classify example_externals ?t [[10, 20], [30, 40]] ?s)"
    using a st by simp
  have 2: "fired 103 ?s (snd (console_classify example_externals ?ct [[10, 20], [30, 40]] (?l, ?s)))"
    using a st by simp
  have 3: "silent ?s (video_classify example_externals ?t [[7]] ?s)"
    using b by simp
  have 4: "silent ?s (snd (console_classify example_externals ?ct [[7]] (?l, ?s)))"
    using b by simp
  have 5: "gaps_at_least 3 (speak_times (trace (emotion_system
     (snd (process_video example_externals example_video_ticks (start_camera OpenOk (gui_init True Map.empty)))))))"
    using a by simp
  have 6: "speak_times (trace (emotion_system
     (snd (process_video example_externals example_video_ticks (start_camera OpenOk (gui_init True Map.empty)))))) = [103]"
    by (simp add: model_defs example_defs Let_def)
  from 1 2 3 4 5 6 show ?thesis by blast
qed

text \<open>The claim as stated fails when the speech engine could not be initialised: voice is
  enabled, the reading has confidence 82.3 and the cooldown has long passed, yet neither
  loop starts a speech thread.\<close>

theorem voice_needs_engine_counterexample:
  "voice_enabled (system_init False Map.empty) \<and>
   fst (detect_emotion example_externals [[10, 20], [30, 40]] (system_init False Map.empty)) =
     (''happy'', 82.3, example_scores) \<and>
   (70::real) < 82.3 \<and>
   voice_cooldown (system_init False Map.empty) \<le> 103 - last_voice_time (system_init False Map.empty) \<and>
   \<not> fired 103 (system_init False Map.empty)
     (video_classify example_externals (example_tick None 103) [[10, 20], [30, 40]] (system_init False Map.empty)) \<and>
   \<not> fired 103 (system_init False Map.empty)
     (snd (console_classify example_externals (example_console_tick None 103 (-1)) [[10, 20], [30, 40]]
        (\<lparr>frame_count = 3, all_emotions = None\<rparr>, system_init False Map.empty)))"
  by (simp add: fired_def model_defs console_defs example_defs Let_def)

subsection \<open>Screenshot\<close>

lemma current_frame_ui: "current_frame (ui c g) = current_frame g"
  by (cases c)
    (auto simp: stop_camera_def toggle_voice_def take_screenshot_def update_gui_def on_system_def
      Let_def split: attribute.splits sum.splits prod.splits queue_error.splits)

lemma current_frame_uis: "current_frame (uis cs g) = current_frame g"
  by (induction cs arbitrary: g) (simp_all add: current_frame_ui)

lemma current_frame_start_camera: "current_frame (start_camera cam g) = current_frame g"
  by (cases cam)
    (auto simp: start_camera_def initialize_camera_def update_gui_def on_system_def
      Let_def split: sum.splits prod.splits queue_error.splits)

text \<open>Claim C10. In the graphical front end, the screenshot command before any frame has
  been captured does nothing: \<^verbatim>\<open>current_frame\<close> is not an attribute yet, so the state with
  its trace and files is returned as it was (no \<^verbatim>\<open>imwrite\<close>, no dialog, no exception). The
  attribute is absent from construction on, through starting the camera and any command of
  the user, until the video thread has read a frame.\<close>

theorem take_screenshot_before_first_frame:
  "(current_frame g = Absent \<longrightarrow> take_screenshot now g = g) \<and>
   current_frame (gui_init tts fs) = Absent \<and>
   current_frame (uis cs (start_camera cam (uis pre (gui_init tts fs)))) = Absent \<and>
   (current_frame g = Absent \<and> cam_read t = None \<longrightarrow>
      current_frame (snd (video_finish ext t (w, g))) = Absent)"
proof -
  have 1: "current_frame g = Absent \<longrightarrow> take_screenshot now g = g"
    by (simp add: take_screenshot_def)
  have 2: "current_frame (gui_init tts fs) = Absent" by (simp add: gui_init_def)
  then have 3: "current_frame (uis cs (start_camera cam (uis pre (gui_init tts fs)))) = Absent"
    by (simp add: current_frame_uis current_frame_start_camera)
  have 4: "current_frame g = Absent \<and> cam_read t = None \<longrightarrow>
      current_frame (snd (video_finish ext t (w, g))) = Absent"
    by (cases w) (simp_all add: video_finish_def)
  from 1 2 3 4 show ?thesis by blast
qed

theorem take_screenshot_before_first_frame_witness:
  "take_screenshot example_time1 (start_camera OpenOk (gui_init True Map.empty)) =
     start_camera OpenOk (gui_init True Map.empty) \<and>
   current_frame (snd (video_finish example_externals (example_tick None 101)
     (InRead 0, start_camera OpenOk (gui_init True Map.empty)))) = Absent"
proof -
  let ?g = "start_camera OpenOk (gui_init True Map.empty)"
  have a: "current_frame ?g = Absent"
    using take_screenshot_before_first_frame [where cs = "[]" and pre = "[]" and cam = OpenOk
        and tts = True and fs = Map.empty and g = ?g and now = example_time1
        and t = "example_tick None 101" and ext = example_externals and w = "InRead 0"]
    by simp
  have b: "cam_read (example_tick None 101) = None" by (simp add: example_tick_def)
  from a b take_screenshot_before_first_frame [where cs = "[]" and pre = "[]" and cam = OpenOk
      and tts = True and fs = Map.empty and g = ?g and now = example_time1
      and t = "example_tick None 101" and ext = example_externals and w = "InRead 0"]
  show ?thesis by simp
qed

subsection \<open>Camera that does not open\<close>

lemma initialize_camera_failed:
  "cam \<noteq> OpenOk \<Longrightarrow> initialize_camera cam s = (False, failed_open cam s)"
  by (cases cam) (simp_all add: initialize_camera_def failed_open_def open_error_def)

text \<open>Claim C7. When the camera does not open (the capture object is not opened, or
  creating it raises), the console front end prints the error and returns without running
  its loop, whatever the ticks would have been; the graphical one prints it and shows an
  error dialog, starts no video thread and leaves its own running flag, the buttons and
  the queue as they were. Neither \<^verbatim>\<open>is_running\<close> flag changes: the session stays idle.\<close>

theorem camera_open_failure_stays_idle:
  assumes "cam \<noteq> OpenOk"
  shows "run_console_mode ext cam ticks s = NotStarted (failed_open cam s) \<and>
         is_running (failed_open cam s) = is_running s \<and>
         trace (failed_open cam s) = trace s @ [Print (CameraInitError (open_error cam))] \<and>
         start_camera cam g =
           g\<lparr>emotion_system := emit (ShowError ''Error'' ''Could not initialize camera'')
                                  (failed_open cam (emotion_system g))\<rparr> \<and>
         gui_is_running (start_camera cam g) = gui_is_running g \<and>
         is_running (emotion_system (start_camera cam g)) = is_running (emotion_system g) \<and>
         trace (emotion_system (start_camera cam g)) =
           trace (emotion_system g) @
             [Print (CameraInitError (open_error cam)),
              ShowError ''Error'' ''Could not initialize camera''] \<and>
         start_button (start_camera cam g) = start_button g \<and>
         stop_button (start_camera cam g) = stop_button g \<and>
         frame_queue (start_camera cam g) = frame_queue g"
  using assms
  by (simp add: run_console_mode_def start_camera_def initialize_camera_failed failed_open_def
      emit_def)

theorem camera_open_failure_stays_idle_witness:
  "run_console_mode example_externals OpenFails [example_console_tick (Some [[0]]) 101 113]
     (system_init True Map.empty) =
     NotStarted (failed_open OpenFails (system_init True Map.empty)) \<and>
   \<not> is_running (failed_open OpenFails (system_init True Map.empty)) \<and>
   trace (failed_open OpenFails (system_init True Map.empty)) =
     [Print (CameraInitError CouldNotOpenWebcam)] \<and>
   \<not> gui_is_running (start_camera (OpenRaises CameraDriverError) (gui_init True Map.empty)) \<and>
   trace (emotion_system (start_camera (OpenRaises CameraDriverError) (gui_init True Map.empty))) =
     [Print (CameraInitError CameraDriverError), ShowError ''Error'' ''Could not initialize camera'']"
proof -
  have a: "OpenFails \<noteq> OpenOk" and b: "OpenRaises CameraDriverError \<noteq> OpenOk" by simp_all
  note c = camera_open_failure_stays_idle [OF a, where ext = example_externals
      and ticks = "[example_console_tick (Some [[0]]) 101 113]" and s = "system_init True Map.empty"
      and g = "gui_init True Map.empty"]
  note d = camera_open_failure_stays_idle [OF b, where g = "gui_init True Map.empty"
      and ext = example_externals and ticks = "[]" and s = "system_init True Map.empty"]
  from c have 1: "run_console_mode example_externals OpenFails [example_console_tick (Some [[0]]) 101 113]
     (system_init True Map.empty) = NotStarted (failed_open OpenFails (system_init True Map.empty))"
    by blast
  from c have "is_running (failed_open OpenFails (system_init True Map.empty)) =
      is_running (system_init True Map.empty)" by blast
  then have 2: "\<not> is_running (failed_open OpenFails (system_init True Map.empty))"
    by (simp add: system_init_def)
  from c have "trace (failed_open OpenFails (system_init True Map.empty)) =
      trace (system_init True Map.empty) @ [Print (CameraInitError (open_error OpenFails))]" by blast
  then have 3: "trace (failed_open OpenFails (system_init True Map.empty)) =
     [Print (CameraInitError CouldNotOpenWebcam)]"
    by (simp add: system_init_def open_error_def)
  from d have "gui_is_running (start_camera (OpenRaises CameraDriverError) (gui_init True Map.empty)) =
      gui_is_running (gui_init True Map.empty)" by blast
  then have 4: "\<not> gui_is_running (start_camera (OpenRaises CameraDriverError) (gui_init True Map.empty))"
    by (simp add: gui_init_def)
  from d have "trace (emotion_system (start_camera (OpenRaises CameraDriverError) (gui_init True Map.empty))) =
      trace (emotion_system (gui_init True Map.empty)) @
        [Print (CameraInitError (open_error (OpenRaises CameraDriverError))),
         ShowError ''Error'' ''Could not initialize camera'']" by blast
  then have 5: "trace (emotion_system (start_camera (OpenRaises CameraDriverError) (gui_init True Map.empty))) =
     [Print (CameraInitError CameraDriverError), ShowError ''Error'' ''Could not initialize camera'']"
    by (simp add: gui_init_def system_init_def open_error_def)
  from 1 2 3 4 5 show ?thesis by blast
qed

subsection \<open>Hand-off queue\<close>

lemma update_gui_queue:
  "items (frame_queue (update_gui g)) = drop 1 (items (frame_queue g)) \<and>
   maxsize (frame_queue (update_gui g)) = maxsize (frame_queue g) \<and>
   gui_is_running (update_gui g) = gui_is_running g"
  by (cases "items (frame_queue g)")
    (auto simp: update_gui_def queue_empty_def queue_get_nowait_def on_system_def Let_def)

lemma update_gui_empty:
  "items (frame_queue g) = [] \<Longrightarrow>
   update_gui g = (if gui_is_running g then on_system (emit (After 30)) g else g)"
  by (simp add: update_gui_def queue_empty_def)

lemma update_gui_head:
  "items (frame_queue g) = (fr, emo, c) # rest \<Longrightarrow>
   video_label (update_gui g) = LabelImage fr \<and> info_labels (update_gui g) = (emo, c)"
  by (simp add: update_gui_def queue_empty_def queue_get_nowait_def on_system_def Let_def)

lemma maxsize_ui: "maxsize (frame_queue (ui c g)) = maxsize (frame_queue g)"
  by (cases c)
    (simp_all add: update_gui_queue stop_camera_def toggle_voice_def take_screenshot_def
      on_system_def Let_def split: attribute.splits)

lemma maxsize_uis: "maxsize (frame_queue (uis cs g)) = maxsize (frame_queue g)"
  by (induction cs arbitrary: g) (simp_all add: maxsize_ui)

lemma queue_put_unbounded:
  "maxsize q = 0 \<Longrightarrow> queue_put x q = Some (q\<lparr>items := items q @ [x]\<rparr>)"
  by (simp add: queue_put_def queue_full_def)

lemma video_finish_frame:
  assumes "cam_read t = Some raw" and "maxsize (frame_queue g) = 0"
  shows "video_finish ext t (InRead n, g) =
           (LoopTop (n + 1), after_frame ext t (flip_horizontal raw) (n + 1) g)"
  using assms
  by (simp add: video_finish_def after_frame_def Let_def on_system_def queue_put_unbounded)

lemma video_finish_no_frame:
  "cam_read t = None \<Longrightarrow> video_finish ext t (InRead n, g) = (Exited, g)"
  by (simp add: video_finish_def)

lemma video_finish_idle:
  "video_finish ext t (LoopTop n, g) = (LoopTop n, g)"
  "video_finish ext t (InPut, g) = (InPut, g)"
  "video_finish ext t (Exited, g) = (Exited, g)"
  by (simp_all add: video_finish_def)

lemma maxsize_video_finish:
  "maxsize (frame_queue (snd (video_finish ext t (w, g)))) = maxsize (frame_queue g)"
  by (cases w)
    (auto simp: video_finish_def Let_def on_system_def queue_put_def split: option.splits)

lemma gui_is_running_video_finish:
  "gui_is_running (snd (video_finish ext t (w, g))) = gui_is_running g"
  by (cases w)
    (auto simp: video_finish_def Let_def on_system_def queue_put_def split: option.splits)

lemma maxsize_start_camera:
  "maxsize (frame_queue (start_camera cam g)) = maxsize (frame_queue g)"
  by (cases cam) (simp_all add: start_camera_def initialize_camera_def update_gui_queue)

lemma maxsize_interleave:
  "maxsize (frame_queue (snd (interleave ext steps (w, g)))) = maxsize (frame_queue g)"
proof (induction steps arbitrary: w g)
  case Nil
  then show ?case by simp
next
  case (Cons st steps)
  show ?case
  proof (cases st)
    case (Ui c)
    then show ?thesis using Cons.IH [of w "ui c g"] by (simp add: maxsize_ui)
  next
    case VideoEnter
    then show ?thesis using Cons.IH [of "video_enter g w" g] by simp
  next
    case (VideoFinish t)
    obtain w' g' where f: "video_finish ext t (w, g) = (w', g')"
      by (cases "video_finish ext t (w, g)")
    then have "maxsize (frame_queue g') = maxsize (frame_queue g)"
      using maxsize_video_finish [of ext t w g] by simp
    then show ?thesis using VideoFinish f Cons.IH [of w' g'] by simp
  qed
qed

text \<open>Claim C8, as the code has it. The hand-off queue is created with no maximum size and
  keeps none, so a \<^verbatim>\<open>put\<close> always appends and never waits: the queue is not bounded. A tick
  of the user interface does not wait either: it takes at most one item, the oldest, and
  shows it; on an empty queue it leaves queue, image and information labels as they were.\<close>

theorem frame_queue_unbounded_ui_tick_nonblocking:
  "maxsize (frame_queue (snd (interleave ext steps (w, start_camera cam (gui_init tts fs))))) = 0 \<and>
   (maxsize q = 0 \<longrightarrow> queue_put x q = Some (q\<lparr>items := items q @ [x]\<rparr>)) \<and>
   items (frame_queue (update_gui g)) = drop 1 (items (frame_queue g)) \<and>
   (items (frame_queue g) = [] \<longrightarrow>
      frame_queue (update_gui g) = frame_queue g \<and>
      video_label (update_gui g) = video_label g \<and>
      info_labels (update_gui g) = info_labels g) \<and>
   (items (frame_queue g) = (fr, emo, c) # rest \<longrightarrow>
      video_label (update_gui g) = LabelImage fr \<and> info_labels (update_gui g) = (emo, c))"
proof -
  have 1: "maxsize (frame_queue (snd (interleave ext steps (w, start_camera cam (gui_init tts fs))))) = 0"
    by (simp add: maxsize_interleave maxsize_start_camera gui_init_def queue_new_def)
  have 2: "maxsize q = 0 \<longrightarrow> queue_put x q = Some (q\<lparr>items := items q @ [x]\<rparr>)"
    by (simp add: queue_put_unbounded)
  have 3: "items (frame_queue (update_gui g)) = drop 1 (items (frame_queue g))"
    by (simp add: update_gui_queue)
  have 4: "items (frame_queue g) = [] \<longrightarrow>
      frame_queue (update_gui g) = frame_queue g \<and>
      video_label (update_gui g) = video_label g \<and>
      info_labels (update_gui g) = info_labels g"
    by (simp add: update_gui_empty on_system_def)
  have 5: "items (frame_queue g) = (fr, emo, c) # rest \<longrightarrow>
      video_label (update_gui g) = LabelImage fr \<and> info_labels (update_gui g) = (emo, c)"
    by (simp add: update_gui_head)
  from 1 2 3 4 5 show ?thesis by blast
qed

lemma after_frame_fields:
  "gui_is_running (after_frame ext t fr n g) = gui_is_running g"
  "maxsize (frame_queue (after_frame ext t fr n g)) = maxsize (frame_queue g)"
  "length (items (frame_queue (after_frame ext t fr n g))) = length (items (frame_queue g)) + 1"
  by (simp_all add: after_frame_def Let_def)

lemma video_loop_step_frame:
  assumes "cam_read t = Some raw" and "gui_is_running (uis (ui_before t) g)"
    and "maxsize (frame_queue g) = 0"
  shows "video_loop ext (t # ts) (LoopTop n, g) =
           video_loop ext ts
             (LoopTop (n + 1),
              after_frame ext t (flip_horizontal raw) (n + 1) (uis (ui_before t) g))"
proof -
  have "maxsize (frame_queue (uis (ui_before t) g)) = 0" using assms(3) by (simp add: maxsize_uis)
  then show ?thesis
    using assms(1,2) by (simp add: Let_def video_enter_def video_finish_frame)
qed

lemma video_loop_queue_grows:
  assumes "\<forall>t \<in> set ticks. cam_read t \<noteq> None \<and> ui_before t = []"
    and "gui_is_running g" and "maxsize (frame_queue g) = 0"
  shows "length (items (frame_queue (snd (video_loop ext ticks (LoopTop n, g))))) =
           length (items (frame_queue g)) + length ticks"
  using assms
proof (induction ticks arbitrary: n g)
  case Nil
  then show ?case by simp
next
  case (Cons t ticks)
  from Cons.prems(1) obtain raw where r: "cam_read t = Some raw" and u: "ui_before t = []"
    by auto
  let ?g = "after_frame ext t (flip_horizontal raw) (n + 1) g"
  have step: "video_loop ext (t # ticks) (LoopTop n, g) = video_loop ext ticks (LoopTop (n + 1), ?g)"
    using video_loop_step_frame [OF r, of g ext ticks n] Cons.prems(2,3) u by simp
  have "length (items (frame_queue (snd (video_loop ext ticks (LoopTop (n + 1), ?g))))) =
          length (items (frame_queue ?g)) + length ticks"
    using Cons.prems by (intro Cons.IH) (simp_all add: after_frame_fields)
  then show ?case unfolding step by (simp add: after_frame_fields)
qed

lemma example_gui_running:
  "gui_is_running example_gui \<and> maxsize (frame_queue example_gui) = 0 \<and>
   items (frame_queue example_gui) = [] \<and> cap (emotion_system example_gui) = Opened"
  by (simp add: example_gui_def start_camera_def initialize_camera_def update_gui_def
      queue_empty_def gui_init_def queue_new_def on_system_def emit_def system_init_def Let_def)

text \<open>The queue has no bound: with \<open>n\<close> frames captured and no tick of the user
  interface it holds \<open>n\<close> items, for every \<open>n\<close>.\<close>

theorem frame_queue_bounded_counterexample:
  "\<not> (\<exists>B. \<forall>n. length (items (frame_queue (snd (process_video example_externals
          (replicate n (example_tick (Some [[0]]) 100)) example_gui)))) \<le> B)"
proof
  assume "\<exists>B. \<forall>n. length (items (frame_queue (snd (process_video example_externals
          (replicate n (example_tick (Some [[0]]) 100)) example_gui)))) \<le> B"
  then obtain B where b: "\<forall>n. length (items (frame_queue (snd (process_video example_externals
          (replicate n (example_tick (Some [[0]]) 100)) example_gui)))) \<le> B" by blast
  have "\<forall>t \<in> set (replicate (Suc B) (example_tick (Some [[0]]) 100)).
          cam_read t \<noteq> None \<and> ui_before t = []"
    by (simp add: example_tick_def)
  from video_loop_queue_grows [OF this, of example_gui example_externals 0] example_gui_running
  have "length (items (frame_queue (snd (process_video example_externals
          (replicate (Suc B) (example_tick (Some [[0]]) 100)) example_gui)))) = Suc B"
    by (simp add: process_video_def)
  with b show False by (metis Suc_n_not_le_n)
qed

theorem frame_queue_unbounded_ui_tick_nonblocking_witness:
  "queue_put ([[0]], ''happy'', 82.3)
     (queue_new 0 \<lparr>items := [([[1]], ''sad'', 40)]\<rparr> :: (frame \<times> string \<times> real) queue) =
     Some (queue_new 0 \<lparr>items := [([[1]], ''sad'', 40), ([[0]], ''happy'', 82.3)]\<rparr>) \<and>
   update_gui (gui_init True Map.empty) = gui_init True Map.empty \<and>
   info_labels (update_gui (gui_init True Map.empty
      \<lparr>frame_queue := queue_new 0 \<lparr>items := [([[1]], ''sad'', 40), ([[0]], ''happy'', 82.3)]\<rparr>\<rparr>)) =
     (''sad'', 40) \<and>
   items (frame_queue (update_gui (gui_init True Map.empty
      \<lparr>frame_queue := queue_new 0 \<lparr>items := [([[1]], ''sad'', 40), ([[0]], ''happy'', 82.3)]\<rparr>\<rparr>))) =
     [([[0]], ''happy'', 82.3)]"
proof -
  let ?q1 = "queue_new 0 \<lparr>items := [([[1]], ''sad'', 40)]\<rparr> :: (frame \<times> string \<times> real) queue"
  let ?q2 = "queue_new 0 \<lparr>items := [([[1]], ''sad'', 40), ([[0]], ''happy'', 82.3)]\<rparr>
              :: (frame \<times> string \<times> real) queue"
  let ?g0 = "gui_init True Map.empty"
  let ?g2 = "?g0\<lparr>frame_queue := ?q2\<rparr>"
  note a = frame_queue_unbounded_ui_tick_nonblocking [where q = ?q1 and x = "([[0]], ''happy'', 82.3)"
      and g = ?g0 and ext = example_externals and steps = "[]" and w = "LoopTop 0" and cam = OpenOk
      and tts = True and fs = Map.empty and fr = "[[1]]" and emo = "''sad''" and c = 40
      and rest = "[([[0]], ''happy'', 82.3)]"]
  note b = frame_queue_unbounded_ui_tick_nonblocking [where q = ?q1 and x = "([[0]], ''happy'', 82.3)"
      and g = ?g2 and ext = example_externals and steps = "[]" and w = "LoopTop 0" and cam = OpenOk
      and tts = True and fs = Map.empty and fr = "[[1]]" and emo = "''sad''" and c = 40
      and rest = "[([[0]], ''happy'', 82.3)]"]
  have m: "maxsize ?q1 = 0" by (simp add: queue_new_def)
  from a m have 1: "queue_put ([[0]], ''happy'', 82.3) ?q1 = Some ?q2" by (simp add: queue_new_def)
  have e: "items (frame_queue ?g0) = []" by (simp add: gui_init_def queue_new_def)
  have n: "\<not> gui_is_running ?g0" by (simp add: gui_init_def)
  have 2: "update_gui ?g0 = ?g0" using e n by (simp add: update_gui_def queue_empty_def)
  have h: "items (frame_queue ?g2) = ([[1]], ''sad'', 40) # [([[0]], ''happy'', 82.3)]"
    by (simp add: queue_new_def)
  from b h have 3: "info_labels (update_gui ?g2) = (''sad'', 40)" by blast
  from b h have 4: "items (frame_queue (update_gui ?g2)) = [([[0]], ''happy'', 82.3)]" by simp
  from 1 2 3 4 show ?thesis by blast
qed

subsection \<open>Stopping\<close>

lemma stop_camera_fields:
  "\<not> gui_is_running (stop_camera g)"
  "maxsize (frame_queue (stop_camera g)) = maxsize (frame_queue g)"
  "cap (emotion_system g) \<noteq> NoCapture \<Longrightarrow> cap (emotion_system (stop_camera g)) = Released"
  "trace (emotion_system (stop_camera g)) =
     trace (emotion_system g) @
       (if cap (emotion_system g) \<noteq> NoCapture then [CapRelease] else []) @
       [DestroyAllWindows, Print SystemStopped]"
  by (simp_all add: stop_camera_def cleanup_def emit_def Let_def)

text \<open>Claim C9, as the code has it. \<^verbatim>\<open>stop_camera\<close> clears the GUI's running flag and
  releases the camera in the same call, wherever the video thread is: the thread is not
  waited for and its position does not change. The thread sees the cleared flag the next
  time it is at the top of its loop and returns; one that was inside \<^verbatim>\<open>cap.read()\<close>
  finishes that iteration first.\<close>

theorem stop_camera_releases_without_waiting:
  "interleave ext [Ui StopCamera] (w, g) = (w, stop_camera g) \<and>
   \<not> gui_is_running (stop_camera g) \<and>
   (cap (emotion_system g) \<noteq> NoCapture \<longrightarrow> cap (emotion_system (stop_camera g)) = Released) \<and>
   trace (emotion_system (stop_camera g)) =
     trace (emotion_system g) @
       (if cap (emotion_system g) \<noteq> NoCapture then [CapRelease] else []) @
       [DestroyAllWindows, Print SystemStopped] \<and>
   video_enter (stop_camera g) (LoopTop n) = Exited \<and>
   (maxsize (frame_queue g) = 0 \<longrightarrow>
      fst (interleave ext [Ui StopCamera, VideoFinish t, VideoEnter] (InRead n, g)) = Exited)"
proof -
  have 6: "fst (interleave ext [Ui StopCamera, VideoFinish t, VideoEnter] (InRead n, g)) = Exited"
    if m: "maxsize (frame_queue g) = 0"
  proof (cases "cam_read t")
    case None
    then show ?thesis by (simp add: video_finish_no_frame video_enter_def)
  next
    case (Some raw)
    have "maxsize (frame_queue (stop_camera g)) = 0" using m by (simp add: stop_camera_fields)
    from video_finish_frame [OF Some this, of ext n] show ?thesis
      by (simp add: video_enter_def after_frame_fields stop_camera_fields)
  qed
  then show ?thesis
    using stop_camera_fields [of g] by (simp add: video_enter_def)
qed

theorem stop_camera_releases_without_waiting_witness:
  "\<not> gui_is_running (stop_camera example_gui) \<and>
   cap (emotion_system (stop_camera example_gui)) = Released \<and>
   fst (interleave example_externals
          [Ui StopCamera, VideoFinish (tick.truncate (example_tick (Some [[0]]) 100)), VideoEnter]
          (InRead 0, example_gui)) = Exited"
proof -
  note a = stop_camera_releases_without_waiting [where g = example_gui and ext = example_externals
      and w = "InRead 0" and n = 0 and t = "tick.truncate (example_tick (Some [[0]]) 100)"]
  have c: "cap (emotion_system example_gui) \<noteq> NoCapture" using example_gui_running by simp
  have m: "maxsize (frame_queue example_gui) = 0" using example_gui_running by simp
  from a c have 2: "cap (emotion_system (stop_camera example_gui)) = Released" by blast
  from a m have 3: "fst (interleave example_externals
          [Ui StopCamera, VideoFinish (tick.truncate (example_tick (Some [[0]]) 100)), VideoEnter]
          (InRead 0, example_gui)) = Exited" by blast
  from a 2 3 show ?thesis by blast
qed

text \<open>The claim as stated fails in the schedule where the video thread has passed its
  loop test and is inside \<^verbatim>\<open>cap.read()\<close> when the user stops: the camera is released
  while the thread is still reading.\<close>

theorem camera_released_during_read_counterexample:
  "cap (emotion_system example_gui) = Opened \<and>
   fst (interleave example_externals [VideoEnter, Ui StopCamera] (LoopTop 0, example_gui)) = InRead 0 \<and>
   cap (emotion_system (snd (interleave example_externals [VideoEnter, Ui StopCamera]
          (LoopTop 0, example_gui)))) = Released \<and>
   trace (emotion_system (snd (interleave example_externals [VideoEnter, Ui StopCamera]
          (LoopTop 0, example_gui)))) =
     trace (emotion_system example_gui) @ [CapRelease, DestroyAllWindows, Print SystemStopped]"
  using example_gui_running by (simp add: video_enter_def stop_camera_fields)

subsection \<open>Frame-acquisition failure\<close>

lemma run_console_mode_opened:
  "run_console_mode ext OpenOk ticks s =
     console_loop ext ticks (\<lparr>frame_count = 0, all_emotions = None\<rparr>, console_started s)"
  by (simp add: run_console_mode_def initialize_camera_def console_started_def)

lemma is_running_console_started: "is_running (console_started s)"
  by (simp add: console_started_def emit_def)

lemma console_first_frame_raises:
  "cam_read ct = Some raw \<Longrightarrow>
   console_iteration ext ct (\<lparr>frame_count = 0, all_emotions = None\<rparr>, s) =
     Raised UnboundLocalError s"
  by (simp add: console_iteration_def console_decimate_def console_present_def Let_def)

lemma console_no_frame_breaks:
  "cam_read ct = None \<Longrightarrow>
   console_iteration ext ct (l, s) = Ok (Break, l, emit (Print FrameReadError) s)"
  by (simp add: console_iteration_def)

text \<open>Claim C6, where the code departs from it. When \<^verbatim>\<open>cap.read()\<close> fails in the video
  thread of the graphical front end, \<^verbatim>\<open>process_video\<close> returns and nothing else happens:
  the state is unchanged, the session still counts as running and the camera is not
  released. The console loop does what the claim says on the same failure (it leaves the
  loop and \<^verbatim>\<open>cleanup\<close> runs), but its first iteration with a frame raises
  \<^verbatim>\<open>UnboundLocalError\<close> before the keys are polled, and \<^verbatim>\<open>cleanup\<close> is skipped.\<close>

theorem read_failure_in_video_thread_skips_cleanup:
  "(gui_is_running g \<and> cam_read t = None \<and> ui_before t = [] \<longrightarrow>
      process_video ext [t] g = (Exited, g)) \<and>
   (cam_read ct = None \<longrightarrow>
      run_console_mode ext OpenOk (ct # cts) s =
        Stopped (cleanup (emit (Print FrameReadError) (console_started s)))) \<and>
   (cam_read ct = Some raw \<longrightarrow>
      run_console_mode ext OpenOk (ct # cts) s = Crashed UnboundLocalError (console_started s))"
proof -
  have 1: "gui_is_running g \<and> cam_read t = None \<and> ui_before t = [] \<longrightarrow>
      process_video ext [t] g = (Exited, g)"
    by (simp add: process_video_def video_enter_def video_finish_no_frame)
  have 2: "cam_read ct = None \<longrightarrow>
      run_console_mode ext OpenOk (ct # cts) s =
        Stopped (cleanup (emit (Print FrameReadError) (console_started s)))"
    by (simp add: run_console_mode_opened is_running_console_started console_no_frame_breaks)
  have 3: "cam_read ct = Some raw \<longrightarrow>
      run_console_mode ext OpenOk (ct # cts) s = Crashed UnboundLocalError (console_started s)"
    by (simp add: run_console_mode_opened is_running_console_started console_first_frame_raises)
  from 1 2 3 show ?thesis by blast
qed

theorem read_failure_in_video_thread_skips_cleanup_witness:
  "process_video example_externals [example_tick None 101] example_gui = (Exited, example_gui) \<and>
   gui_is_running example_gui \<and> cap (emotion_system example_gui) = Opened \<and>
   CapRelease \<notin> set (trace (emotion_system example_gui)) \<and>
   run_console_mode example_externals OpenOk [example_console_tick None 101 (-1)]
     (system_init True Map.empty) =
     Stopped (cleanup (emit (Print FrameReadError) (console_started (system_init True Map.empty)))) \<and>
   cap (cleanup (emit (Print FrameReadError) (console_started (system_init True Map.empty)))) =
     Released \<and>
   run_console_mode example_externals OpenOk [example_console_tick (Some [[0]]) 101 113]
     (system_init True Map.empty) =
     Crashed UnboundLocalError (console_started (system_init True Map.empty)) \<and>
   is_running (console_started (system_init True Map.empty)) \<and>
   cap (console_started (system_init True Map.empty)) = Opened"
proof -
  note a = read_failure_in_video_thread_skips_cleanup [where g = example_gui
      and t = "example_tick None 101" and ext = example_externals
      and ct = "example_console_tick None 101 (-1)" and cts = "[]"
      and s = "system_init True Map.empty" and raw = "[[0]]"]
  note b = read_failure_in_video_thread_skips_cleanup [where g = example_gui
      and t = "example_tick None 101" and ext = example_externals
      and ct = "example_console_tick (Some [[0]]) 101 113" and cts = "[]"
      and s = "system_init True Map.empty" and raw = "[[0]]"]
  have h1: "gui_is_running example_gui \<and> cam_read (example_tick None 101) = None \<and>
            ui_before (example_tick None 101) = []"
    using example_gui_running by (simp add: example_tick_def)
  have h2: "cam_read (example_console_tick None 101 (-1)) = None"
    by (simp add: example_console_tick_def)
  have h3: "cam_read (example_console_tick (Some [[0]]) 101 113) = Some [[0]]"
    by (simp add: example_console_tick_def)
  from a h1 have 1: "process_video example_externals [example_tick None 101] example_gui =
      (Exited, example_gui)" by blast
  from a h2 have 2: "run_console_mode example_externals OpenOk [example_console_tick None 101 (-1)]
     (system_init True Map.empty) =
     Stopped (cleanup (emit (Print FrameReadError) (console_started (system_init True Map.empty))))"
    by blast
  from b h3 have 3: "run_console_mode example_externals OpenOk
     [example_console_tick (Some [[0]]) 101 113] (system_init True Map.empty) =
     Crashed UnboundLocalError (console_started (system_init True Map.empty))" by blast
  have 4: "CapRelease \<notin> set (trace (emotion_system example_gui))"
    by (simp add: example_gui_def start_camera_def initialize_camera_def update_gui_def
        queue_empty_def gui_init_def queue_new_def on_system_def emit_def system_init_def Let_def)
  have 5: "cap (cleanup (emit (Print FrameReadError) (console_started (system_init True Map.empty)))) =
     Released"
    by (simp add: cleanup_def console_started_def emit_def Let_def)
  have 6: "is_running (console_started (system_init True Map.empty)) \<and>
           cap (console_started (system_init True Map.empty)) = Opened"
    by (simp add: console_started_def emit_def)
  from 1 2 3 4 5 6 example_gui_running show ?thesis by blast
qed

subsection \<open>Failed classification\<close>

lemma detect_emotion_failed:
  "detect_emotion_try ext fr = Inl e \<Longrightarrow>
   detect_emotion ext fr s =
     (unknown_reading, emit (Print (DetectionError e)) (emit (AnalyzeCall fr) s))"
  by (simp add: detect_emotion_def)

lemma video_classify_failed:
  "detect_emotion_try ext fr = Inl e \<Longrightarrow>
   video_classify ext t fr s = emit (Print (DetectionError e)) (emit (AnalyzeCall fr) s)"
  by (simp add: video_classify_def detect_emotion_failed unknown_reading_def)

lemma console_classify_failed:
  "detect_emotion_try ext fr = Inl e \<Longrightarrow>
   console_classify ext ct fr (l, s) =
     (l\<lparr>all_emotions := Some []\<rparr>, emit (Print (DetectionError e)) (emit (AnalyzeCall fr) s))"
  by (simp add: console_classify_def detect_emotion_failed unknown_reading_def)

lemma console_keys_quiet:
  "files (snd (console_keys ct fr s)) = files s \<and>
   current_emotion (snd (console_keys ct fr s)) = current_emotion s \<and>
   current_confidence (snd (console_keys ct fr s)) = current_confidence s \<and>
   is_running (snd (console_keys ct fr s)) = is_running s \<and>
   speak_times (trace (snd (console_keys ct fr s))) = speak_times (trace s) \<and>
   (fst (console_keys ct fr s) = Continue \<longleftrightarrow> wait_key ct mod 256 \<noteq> 113)"
  by (simp add: console_keys_def Let_def emit_def speak_times_append)

text \<open>Claim C5, as the code has it. On a classification tick where the classifier fails,
  the stored label and confidence keep their values (the sentinel is returned by the
  adapter but not stored), the files are unchanged, no speech thread is started, and the
  loop goes on: the video thread publishes the stored reading and is back at the top of its
  loop; the console iteration ends normally, with empty per-class scores to draw, and
  continues unless the quit key was pressed.\<close>

theorem failed_classification_keeps_reading:
  assumes fail: "detect_emotion_try ext (flip_horizontal raw) = Inl e"
    and rd: "cam_read t = Some raw" and crd: "cam_read ct = Some raw"
  shows "((n + 1) mod 3 = 0 \<and> maxsize (frame_queue g) = 0 \<longrightarrow>
            (\<exists>g'. video_finish ext t (InRead n, g) = (LoopTop (n + 1), g') \<and>
               current_emotion (emotion_system g') = current_emotion (emotion_system g) \<and>
               current_confidence (emotion_system g') = current_confidence (emotion_system g) \<and>
               files (emotion_system g') = files (emotion_system g) \<and>
               gui_is_running g' = gui_is_running g \<and>
               trace (emotion_system g') =
                 trace (emotion_system g) @
                   [AnalyzeCall (flip_horizontal raw), Print (DetectionError e),
                    QueuePut (flip_horizontal raw) (current_emotion (emotion_system g))
                      (current_confidence (emotion_system g))])) \<and>
         ((frame_count l + 1) mod 3 = 0 \<longrightarrow>
            (\<exists>c s'. console_iteration ext ct (l, s) =
                  Ok (c, \<lparr>frame_count = frame_count l + 1, all_emotions = Some []\<rparr>, s') \<and>
               (c = Continue \<longleftrightarrow> wait_key ct mod 256 \<noteq> 113) \<and>
               current_emotion s' = current_emotion s \<and>
               current_confidence s' = current_confidence s \<and>
               files s' = files s \<and> is_running s' = is_running s \<and>
               speak_times (trace s') = speak_times (trace s)))"
proof (intro conjI impI)
  let ?fr = "flip_horizontal raw"
  assume a: "(n + 1) mod 3 = 0 \<and> maxsize (frame_queue g) = 0"
  let ?g' = "after_frame ext t ?fr (n + 1) g"
  have f: "video_finish ext t (InRead n, g) = (LoopTop (n + 1), ?g')"
    using a rd by (simp add: video_finish_frame)
  have s1: "emotion_system ?g' =
      emit (QueuePut ?fr (current_emotion (emotion_system g)) (current_confidence (emotion_system g)))
        (emit (Print (DetectionError e)) (emit (AnalyzeCall ?fr) (emotion_system g)))"
    using a fail by (simp add: after_frame_def Let_def video_classify_failed emit_def)
  have gr: "gui_is_running ?g' = gui_is_running g" by (simp add: after_frame_fields)
  have p: "current_emotion (emotion_system ?g') = current_emotion (emotion_system g) \<and>
           current_confidence (emotion_system ?g') = current_confidence (emotion_system g) \<and>
           files (emotion_system ?g') = files (emotion_system g) \<and>
           trace (emotion_system ?g') =
             trace (emotion_system g) @
               [AnalyzeCall (flip_horizontal raw), Print (DetectionError e),
                QueuePut (flip_horizontal raw) (current_emotion (emotion_system g))
                  (current_confidence (emotion_system g))]"
    unfolding s1 by (simp add: emit_def)
  show "\<exists>g'. video_finish ext t (InRead n, g) = (LoopTop (n + 1), g') \<and>
               current_emotion (emotion_system g') = current_emotion (emotion_system g) \<and>
               current_confidence (emotion_system g') = current_confidence (emotion_system g) \<and>
               files (emotion_system g') = files (emotion_system g) \<and>
               gui_is_running g' = gui_is_running g \<and>
               trace (emotion_system g') =
                 trace (emotion_system g) @
                   [AnalyzeCall (flip_horizontal raw), Print (DetectionError e),
                    QueuePut (flip_horizontal raw) (current_emotion (emotion_system g))
                      (current_confidence (emotion_system g))]"
    using f gr p by blast
next
  let ?fr = "flip_horizontal raw"
  assume a: "(frame_count l + 1) mod 3 = 0"
  let ?l' = "\<lparr>frame_count = frame_count l + 1, all_emotions = Some []\<rparr>"
  let ?s2 = "emit (Print (DetectionError e)) (emit (AnalyzeCall ?fr) s)"
  let ?s3 = "emit ImShow (emit (Draw (current_emotion ?s2) (current_confidence ?s2) []) ?s2)"
  have d: "console_decimate ext ct ?fr (l, s) = (?l', ?s2)"
    using a fail by (simp add: console_decimate_def Let_def console_classify_failed)
  have it: "console_iteration ext ct (l, s) =
      Ok (fst (console_keys ct ?fr ?s3), ?l', snd (console_keys ct ?fr ?s3))"
    using crd by (simp add: console_iteration_def d console_present_def split: prod.splits)
  have q: "files ?s3 = files s \<and> current_emotion ?s3 = current_emotion s \<and>
           current_confidence ?s3 = current_confidence s \<and> is_running ?s3 = is_running s \<and>
           speak_times (trace ?s3) = speak_times (trace s)"
    by (simp add: emit_def speak_times_append)
  show "\<exists>c s'. console_iteration ext ct (l, s) =
                  Ok (c, \<lparr>frame_count = frame_count l + 1, all_emotions = Some []\<rparr>, s') \<and>
               (c = Continue \<longleftrightarrow> wait_key ct mod 256 \<noteq> 113) \<and>
               current_emotion s' = current_emotion s \<and>
               current_confidence s' = current_confidence s \<and>
               files s' = files s \<and> is_running s' = is_running s \<and>
               speak_times (trace s') = speak_times (trace s)"
    apply (rule exI [of _ "fst (console_keys ct ?fr ?s3)"])
    apply (rule exI [of _ "snd (console_keys ct ?fr ?s3)"])
    using it q console_keys_quiet [of ct ?fr ?s3] by simp
qed

theorem failed_classification_keeps_reading_witness:
  "fst (video_finish example_externals (example_tick (Some [[5]]) 106) (InRead 2, example_gui)) =
     LoopTop 3 \<and>
   current_emotion (emotion_system (snd (video_finish example_externals
     (example_tick (Some [[5]]) 106) (InRead 2, example_gui)))) = ''Unknown'' \<and>
   files (emotion_system (snd (video_finish example_externals
     (example_tick (Some [[5]]) 106) (InRead 2, example_gui)))) = Map.empty \<and>
   (\<exists>s'. console_iteration example_externals (example_console_tick (Some [[5]]) 106 (-1))
           (\<lparr>frame_count = 2, all_emotions = Some example_scores\<rparr>,
            console_started (system_init True Map.empty)) =
          Ok (Continue, \<lparr>frame_count = 3, all_emotions = Some []\<rparr>, s') \<and>
        current_emotion s' = ''Unknown'' \<and> files s' = Map.empty \<and> is_running s')"
proof -
  let ?t = "example_tick (Some [[5]]) 106"
  let ?ct = "example_console_tick (Some [[5]]) 106 (-1)"
  let ?l = "\<lparr>frame_count = 2, all_emotions = Some example_scores\<rparr>"
  let ?s = "console_started (system_init True Map.empty)"
  have fail: "detect_emotion_try example_externals (flip_horizontal [[5]]) = Inl ModelError"
    by (simp add: detect_emotion_try_def example_externals_def flip_horizontal_def)
  have rd: "cam_read ?t = Some [[5]]" by (simp add: example_tick_def)
  have crd: "cam_read ?ct = Some [[5]]" by (simp add: example_console_tick_def)
  note a = failed_classification_keeps_reading [OF fail rd crd, where n = 2 and g = example_gui
      and l = ?l and s = ?s]
  have h1: "(2 + 1) mod 3 = (0::nat) \<and> maxsize (frame_queue example_gui) = 0"
    using example_gui_running by simp
  have h2: "(frame_count ?l + 1) mod 3 = 0" by simp
  have k: "wait_key ?ct mod 256 \<noteq> 113" by (simp add: example_console_tick_def)
  have e0: "current_emotion (emotion_system example_gui) = ''Unknown'' \<and>
            files (emotion_system example_gui) = Map.empty"
    by (simp add: example_gui_def start_camera_def initialize_camera_def update_gui_def
        queue_empty_def gui_init_def queue_new_def on_system_def emit_def system_init_def Let_def)
  have e1: "current_emotion ?s = ''Unknown'' \<and> files ?s = Map.empty \<and> is_running ?s"
    by (simp add: console_started_def emit_def system_init_def)
  from a h1 obtain g' where v: "video_finish example_externals ?t (InRead 2, example_gui) =
      (LoopTop (2 + 1), g')"
    and v1: "current_emotion (emotion_system g') = current_emotion (emotion_system example_gui)"
    and v2: "files (emotion_system g') = files (emotion_system example_gui)"
    by blast
  from a h2 obtain c s' where
    c: "console_iteration example_externals ?ct (?l, ?s) =
          Ok (c, \<lparr>frame_count = frame_count ?l + 1, all_emotions = Some []\<rparr>, s')"
    and c0: "c = Continue \<longleftrightarrow> wait_key ?ct mod 256 \<noteq> 113"
    and c1: "current_emotion s' = current_emotion ?s" and c2: "files s' = files ?s"
    and c3: "is_running s' = is_running ?s"
    by blast
  from c c0 k have c': "console_iteration example_externals ?ct (?l, ?s) =
          Ok (Continue, \<lparr>frame_count = 3, all_emotions = Some []\<rparr>, s')" by simp
  from v v1 v2 e0 c' c1 c2 c3 e1 show ?thesis by auto
qed

text \<open>The claim as stated fails on the example run: tick 3 classifies (happy, 82.3), the
  model raises on tick 6, and the reading stored and published after tick 6 is still
  (happy, 82.3), not the sentinel.\<close>

theorem failed_classification_counterexample:
  "detect_emotion_try example_externals (flip_horizontal [[5]]) = Inl ModelError \<and>
   cam_read (example_video_ticks ! 5) = Some [[5]] \<and>
   fst (process_video example_externals example_video_ticks example_gui) = LoopTop 6 \<and>
   current_emotion (emotion_system (snd (process_video example_externals example_video_ticks
     example_gui))) = ''happy'' \<and>
   current_confidence (emotion_system (snd (process_video example_externals example_video_ticks
     example_gui))) = 82.3 \<and>
   last (items (frame_queue (snd (process_video example_externals example_video_ticks
     example_gui)))) = ([[5]], ''happy'', 82.3)"
  by (simp add: model_defs example_defs Let_def)

subsection \<open>Frame decimation\<close>

lemma analyze_calls_append: "analyze_calls (xs @ ys) = analyze_calls xs @ analyze_calls ys"
  by (induction xs rule: analyze_calls.induct) auto

lemma published_append: "published (xs @ ys) = published xs @ published ys"
  by (induction xs rule: published.induct) auto

lemma loop_view_log_emotion: "loop_view (log_emotion ext n1 n2 emo c scs s) = loop_view s"
  by (auto simp: log_emotion_def log_emotion_try_def loop_view_def stored_reading_def emit_def
      analyze_calls_append published_append
      split: sum.splits json.splits dump_result.splits prod.splits option.splits)

lemma loop_view_speak_emotion: "loop_view (speak_emotion now emo c s) = loop_view s"
  by (simp add: speak_emotion_def loop_view_def stored_reading_def emit_def
      analyze_calls_append published_append)

lemma loop_view_on_reading:
  "loop_view (on_reading ext t (emo, c, scs) s) =
     (analyze_calls (trace s), published (trace s), (emo, c))"
proof -
  let ?s1 = "s\<lparr>current_emotion := emo, current_confidence := c\<rparr>"
  have "loop_view ?s1 = (analyze_calls (trace s), published (trace s), (emo, c))"
    by (simp add: loop_view_def stored_reading_def)
  then show ?thesis
    by (simp add: on_reading_def Let_def loop_view_speak_emotion loop_view_log_emotion)
qed

lemma loop_view_video_classify:
  "loop_view (video_classify ext t fr s) =
     (analyze_calls (trace s) @ [fr], published (trace s),
      (case detect_emotion_try ext fr of
         Inr (emo, c, scs) \<Rightarrow> if emo \<noteq> ''unknown'' then (emo, c) else stored_reading s
       | Inl e \<Rightarrow> stored_reading s))"
proof (cases "detect_emotion_try ext fr")
  case (Inl e)
  then show ?thesis
    by (simp add: video_classify_def detect_emotion_def unknown_reading_def loop_view_def
        stored_reading_def emit_def analyze_calls_append published_append)
next
  case (Inr r)
  obtain emo c scs where r: "r = (emo, c, scs)" by (cases r) auto
  let ?s1 = "emit (AnalyzeCall fr) s"
  have v1: "analyze_calls (trace ?s1) = analyze_calls (trace s) @ [fr]"
    "published (trace ?s1) = published (trace s)" "stored_reading ?s1 = stored_reading s"
    by (simp_all add: emit_def analyze_calls_append published_append stored_reading_def)
  show ?thesis
  proof (cases "emo = ''unknown''")
    case True
    then show ?thesis using Inr r v1
      by (simp add: video_classify_def detect_emotion_def loop_view_def)
  next
    case False
    then show ?thesis using Inr r v1
      by (simp add: video_classify_def detect_emotion_def loop_view_on_reading)
  qed
qed

lemma loop_view_update_gui: "loop_view (emotion_system (update_gui g)) = loop_view (emotion_system g)"
  by (cases "items (frame_queue g)")
    (auto simp: update_gui_def queue_empty_def queue_get_nowait_def on_system_def Let_def
      loop_view_def stored_reading_def emit_def analyze_calls_append published_append)

lemma loop_view_ui: "loop_view (emotion_system (ui c g)) = loop_view (emotion_system g)"
proof (cases c)
  case StopCamera
  then show ?thesis
    by (simp add: stop_camera_def cleanup_def Let_def loop_view_def stored_reading_def emit_def
        analyze_calls_append published_append)
next
  case ToggleVoice
  then show ?thesis
    by (simp add: toggle_voice_def on_system_def Let_def loop_view_def stored_reading_def emit_def
        analyze_calls_append published_append)
next
  case (Screenshot now)
  then show ?thesis
    by (simp add: take_screenshot_def on_system_def Let_def loop_view_def stored_reading_def
        emit_def analyze_calls_append published_append split: attribute.splits)
next
  case UpdateGui
  then show ?thesis by (simp add: loop_view_update_gui)
qed

lemma loop_view_uis: "loop_view (emotion_system (uis cs g)) = loop_view (emotion_system g)"
  by (induction cs arbitrary: g) (simp_all add: loop_view_ui)

lemma gui_is_running_ui: "c \<noteq> StopCamera \<Longrightarrow> gui_is_running (ui c g) = gui_is_running g"
  by (cases c)
    (simp_all add: toggle_voice_def take_screenshot_def on_system_def Let_def update_gui_queue
      split: attribute.splits)

lemma gui_is_running_uis:
  "StopCamera \<notin> set cs \<Longrightarrow> gui_is_running (uis cs g) = gui_is_running g"
proof (induction cs arbitrary: g)
  case Nil
  then show ?case by simp
next
  case (Cons c cs)
  then have c: "c \<noteq> StopCamera" and cs: "StopCamera \<notin> set cs" by auto
  from Cons.IH [OF cs, of "ui c g"] show ?case by (simp add: gui_is_running_ui [OF c])
qed

lemma loop_view_after_frame:
  "loop_view (emotion_system (after_frame ext t fr n g)) =
     (let new = (if n mod 3 = 0
                 then (case detect_emotion_try ext fr of
                         Inr (emo, c, scs) \<Rightarrow>
                           if emo \<noteq> ''unknown'' then (emo, c)
                           else stored_reading (emotion_system g)
                       | Inl e \<Rightarrow> stored_reading (emotion_system g))
                 else stored_reading (emotion_system g))
      in (analyze_calls (trace (emotion_system g)) @ (if n mod 3 = 0 then [fr] else []),
          published (trace (emotion_system g)) @ [new], new))"
proof (cases "n mod 3 = 0")
  case True
  let ?s1 = "video_classify ext t fr (emotion_system g)"
  have e: "emotion_system (after_frame ext t fr n g) =
      emit (QueuePut fr (current_emotion ?s1) (current_confidence ?s1)) ?s1"
    using True by (simp add: after_frame_def Let_def)
  have v: "loop_view ?s1 = (analyze_calls (trace (emotion_system g)) @ [fr],
      published (trace (emotion_system g)),
      (case detect_emotion_try ext fr of
         Inr (emo, c, scs) \<Rightarrow> if emo \<noteq> ''unknown'' then (emo, c) else stored_reading (emotion_system g)
       | Inl e \<Rightarrow> stored_reading (emotion_system g)))"
    by (rule loop_view_video_classify)
  from v have a: "analyze_calls (trace ?s1) = analyze_calls (trace (emotion_system g)) @ [fr]"
    and b: "published (trace ?s1) = published (trace (emotion_system g))"
    and c: "stored_reading ?s1 =
      (case detect_emotion_try ext fr of
         Inr (emo, c, scs) \<Rightarrow> if emo \<noteq> ''unknown'' then (emo, c) else stored_reading (emotion_system g)
       | Inl e \<Rightarrow> stored_reading (emotion_system g))"
    by (simp_all add: loop_view_def)
  have q: "loop_view (emit (QueuePut fr (current_emotion ?s1) (current_confidence ?s1)) ?s1) =
      (analyze_calls (trace ?s1), published (trace ?s1) @ [stored_reading ?s1], stored_reading ?s1)"
    by (simp add: loop_view_def emit_def analyze_calls_append published_append stored_reading_def)
  show ?thesis unfolding e q a b c using True by (simp add: Let_def)
next
  case False
  then show ?thesis
    by (simp add: after_frame_def Let_def loop_view_def emit_def analyze_calls_append
        published_append stored_reading_def)
qed

lemma video_loop_append:
  "video_loop ext (xs @ ys) wg = video_loop ext ys (video_loop ext xs wg)"
proof (induction xs arbitrary: wg)
  case Nil
  then show ?case by simp
next
  case (Cons t xs)
  obtain w g where wg: "wg = (w, g)" by (cases wg)
  show ?case unfolding wg by (simp add: Let_def Cons.IH)
qed

lemma frame_at_snoc:
  "1 \<le> k \<Longrightarrow> k \<le> length ticks \<Longrightarrow> frame_at (ticks @ [t]) k = frame_at ticks k"
proof -
  assume "1 \<le> k" and "k \<le> length ticks"
  then have "k - 1 < length ticks" by arith
  then show ?thesis by (simp add: frame_at_def nth_append)
qed

lemma frame_at_last:
  "cam_read t = Some raw \<Longrightarrow> frame_at (ticks @ [t]) (Suc (length ticks)) = flip_horizontal raw"
  by (simp add: frame_at_def)

lemma last_reading_snoc:
  "k \<le> length ticks \<Longrightarrow> last_reading ext (ticks @ [t]) cur k = last_reading ext ticks cur k"
proof (induction k)
  case 0
  then show ?case by simp
next
  case (Suc k)
  then have "frame_at (ticks @ [t]) (Suc k) = frame_at ticks (Suc k)"
    by (simp add: frame_at_snoc)
  moreover from Suc have "last_reading ext (ticks @ [t]) cur k = last_reading ext ticks cur k"
    by simp
  ultimately show ?case by (simp split: sum.splits prod.splits)
qed

lemma loop_view_parts:
  "loop_view s = (a, p, r) \<longleftrightarrow>
     analyze_calls (trace s) = a \<and> published (trace s) = p \<and> stored_reading s = r"
  by (auto simp: loop_view_def)

lemma video_loop_run:
  assumes "\<forall>t \<in> set ticks. steady t" and "gui_is_running g" and "maxsize (frame_queue g) = 0"
  shows "\<exists>g'. video_loop ext ticks (LoopTop 0, g) = (LoopTop (length ticks), g') \<and>
           gui_is_running g' \<and> maxsize (frame_queue g') = 0 \<and>
           loop_view (emotion_system g') =
             (analyze_calls (trace (emotion_system g)) @
                map (frame_at ticks) (filter (\<lambda>k. k mod 3 = 0) [1..<Suc (length ticks)]),
              published (trace (emotion_system g)) @
                map (last_reading ext ticks (stored_reading (emotion_system g)))
                  [1..<Suc (length ticks)],
              last_reading ext ticks (stored_reading (emotion_system g)) (length ticks))"
  using assms(1)
proof (induction ticks rule: rev_induct)
  case Nil
  show ?case using assms(2,3) by (simp add: loop_view_def)
next
  case (snoc t ticks)
  let ?n = "length ticks"
  let ?cur = "stored_reading (emotion_system g)"
  from snoc.prems have st: "steady t" and all: "\<forall>t \<in> set ticks. steady t" by simp_all
  from snoc.IH [OF all] obtain g1 where
    run: "video_loop ext ticks (LoopTop 0, g) = (LoopTop ?n, g1)"
    and r1: "gui_is_running g1" and m1: "maxsize (frame_queue g1) = 0"
    and v1: "loop_view (emotion_system g1) =
             (analyze_calls (trace (emotion_system g)) @
                map (frame_at ticks) (filter (\<lambda>k. k mod 3 = 0) [1..<Suc ?n]),
              published (trace (emotion_system g)) @ map (last_reading ext ticks ?cur) [1..<Suc ?n],
              last_reading ext ticks ?cur ?n)"
    by blast
  from st obtain raw where raw: "cam_read t = Some raw" and ns: "StopCamera \<notin> set (ui_before t)"
    by (auto simp: steady_def)
  let ?g2 = "uis (ui_before t) g1"
  let ?fr = "flip_horizontal raw"
  let ?g' = "after_frame ext t ?fr (?n + 1) ?g2"
  have r2: "gui_is_running ?g2" using r1 ns by (simp add: gui_is_running_uis)
  have v2: "loop_view (emotion_system ?g2) = loop_view (emotion_system g1)"
    by (rule loop_view_uis)
  have step: "video_loop ext [t] (LoopTop ?n, g1) = (LoopTop (?n + 1), ?g')"
    using video_loop_step_frame [OF raw r2 m1, of ext "[]" ?n] by simp
  have run': "video_loop ext (ticks @ [t]) (LoopTop 0, g) = (LoopTop (length (ticks @ [t])), ?g')"
    unfolding video_loop_append run step by simp
  have r': "gui_is_running ?g'" using r2 by (simp add: after_frame_fields)
  have m': "maxsize (frame_queue ?g') = 0" using m1 by (simp add: after_frame_fields maxsize_uis)
  from v2 have v2c: "analyze_calls (trace (emotion_system ?g2)) = analyze_calls (trace (emotion_system g1))"
    "published (trace (emotion_system ?g2)) = published (trace (emotion_system g1))"
    "stored_reading (emotion_system ?g2) = stored_reading (emotion_system g1)"
    by (simp_all add: loop_view_def)
  from v1 v2c have a2: "analyze_calls (trace (emotion_system ?g2)) =
        analyze_calls (trace (emotion_system g)) @
          map (frame_at ticks) (filter (\<lambda>k. k mod 3 = 0) [1..<Suc ?n])"
    and p2: "published (trace (emotion_system ?g2)) =
        published (trace (emotion_system g)) @ map (last_reading ext ticks ?cur) [1..<Suc ?n]"
    and s2: "stored_reading (emotion_system ?g2) = last_reading ext ticks ?cur ?n"
    by (simp_all add: loop_view_parts del: upt_Suc)
  let ?new = "last_reading ext (ticks @ [t]) ?cur (Suc ?n)"
  have new: "?new =
      (if (?n + 1) mod 3 = 0
       then (case detect_emotion_try ext ?fr of
               Inr (emo, c, scs) \<Rightarrow>
                 if emo \<noteq> ''unknown'' then (emo, c) else stored_reading (emotion_system ?g2)
             | Inl e \<Rightarrow> stored_reading (emotion_system ?g2))
       else stored_reading (emotion_system ?g2))"
    by (simp add: frame_at_last [OF raw] last_reading_snoc s2 split: sum.splits prod.splits)
  have fmap: "map (frame_at (ticks @ [t])) (filter (\<lambda>k. k mod 3 = 0) [1..<Suc ?n]) =
              map (frame_at ticks) (filter (\<lambda>k. k mod 3 = 0) [1..<Suc ?n])"
    by (rule map_cong) (auto simp: frame_at_snoc simp del: upt_Suc)
  have rmap: "map (last_reading ext (ticks @ [t]) ?cur) [1..<Suc ?n] =
              map (last_reading ext ticks ?cur) [1..<Suc ?n]"
    by (rule map_cong) (auto simp: last_reading_snoc simp del: upt_Suc last_reading.simps)
  have up: "[1..<Suc (Suc ?n)] = [1..<Suc ?n] @ [Suc ?n]" by simp
  have calls: "map (frame_at (ticks @ [t])) (filter (\<lambda>k. k mod 3 = 0) [1..<Suc (Suc ?n)]) =
      map (frame_at ticks) (filter (\<lambda>k. k mod 3 = 0) [1..<Suc ?n]) @
        (if (?n + 1) mod 3 = 0 then [?fr] else [])"
    unfolding up using fmap by (simp add: frame_at_last [OF raw] del: upt_Suc)
  have pubs: "map (last_reading ext (ticks @ [t]) ?cur) [1..<Suc (Suc ?n)] =
      map (last_reading ext ticks ?cur) [1..<Suc ?n] @ [?new]"
    unfolding up using rmap by (simp del: upt_Suc last_reading.simps)
  have len: "length (ticks @ [t]) = Suc ?n" by simp
  have "loop_view (emotion_system ?g') =
      (analyze_calls (trace (emotion_system ?g2)) @ (if (?n + 1) mod 3 = 0 then [?fr] else []),
       published (trace (emotion_system ?g2)) @ [?new], ?new)"
    by (simp only: loop_view_after_frame Let_def new)
  then have v': "loop_view (emotion_system ?g') =
      (analyze_calls (trace (emotion_system g)) @
         map (frame_at (ticks @ [t])) (filter (\<lambda>k. k mod 3 = 0) [1..<Suc (Suc ?n)]),
       published (trace (emotion_system g)) @
         map (last_reading ext (ticks @ [t]) ?cur) [1..<Suc (Suc ?n)],
       ?new)"
    by (simp only: a2 p2 calls pubs append_assoc)
  have run'': "video_loop ext (ticks @ [t]) (LoopTop 0, g) = (LoopTop (Suc ?n), ?g')"
    using run' by simp
  show ?case unfolding len using run'' r' m' v' by blast
qed

lemma started_gui:
  "gui_is_running (start_camera OpenOk (gui_init tts fs)) \<and>
   maxsize (frame_queue (start_camera OpenOk (gui_init tts fs))) = 0 \<and>
   loop_view (emotion_system (start_camera OpenOk (gui_init tts fs))) = ([], [], (''Unknown'', 0))"
  by (simp add: start_camera_def initialize_camera_def update_gui_def queue_empty_def gui_init_def
      queue_new_def on_system_def emit_def system_init_def Let_def loop_view_def stored_reading_def)

lemma last_reading_cases:
  "k mod 3 \<noteq> 0 \<Longrightarrow> last_reading ext ticks cur k = last_reading ext ticks cur (k - 1)"
  "0 < k \<Longrightarrow> k mod 3 = 0 \<Longrightarrow> detect_emotion_try ext (frame_at ticks k) = Inr (emo, c, scs) \<Longrightarrow>
     emo \<noteq> ''unknown'' \<Longrightarrow> last_reading ext ticks cur k = (emo, c)"
  "0 < k \<Longrightarrow> detect_emotion_try ext (frame_at ticks k) = Inl e \<Longrightarrow>
     last_reading ext ticks cur k = last_reading ext ticks cur (k - 1)"
  by (cases k; simp)+

text \<open>Claim C4, as the code has it. While the video thread of the graphical front end
  reads frames and the user does not stop it, its frame counter after \<open>n\<close> ticks is \<open>n\<close>; the
  model is called exactly on the ticks that are multiples of 3, with the mirrored frame of
  that tick; and the reading published for rendering on tick \<open>k\<close> (label and confidence: this
  front end renders no per-class scores) is \<^const>\<open>last_reading\<close> at \<open>k\<close>: the reading of
  the last classification so far that gave a label other than \<^verbatim>\<open>"unknown"\<close>,
  \<^verbatim>\<open>("Unknown", 0.0)\<close> before the first. It is unchanged on a tick that is not a multiple
  of 3 and on one whose classification fails.\<close>

theorem video_loop_decimation:
  assumes "\<forall>t \<in> set ticks. steady t"
  shows "fst (process_video ext ticks (start_camera OpenOk (gui_init tts fs))) =
           LoopTop (length ticks) \<and>
         analyze_calls (trace (emotion_system
           (snd (process_video ext ticks (start_camera OpenOk (gui_init tts fs)))))) =
           map (frame_at ticks) (filter (\<lambda>k. k mod 3 = 0) [1..<Suc (length ticks)]) \<and>
         published (trace (emotion_system
           (snd (process_video ext ticks (start_camera OpenOk (gui_init tts fs)))))) =
           map (last_reading ext ticks (''Unknown'', 0)) [1..<Suc (length ticks)] \<and>
         (\<forall>k. k mod 3 \<noteq> 0 \<longrightarrow>
            last_reading ext ticks cur k = last_reading ext ticks cur (k - 1)) \<and>
         (\<forall>k e. 0 < k \<and> detect_emotion_try ext (frame_at ticks k) = Inl e \<longrightarrow>
            last_reading ext ticks cur k = last_reading ext ticks cur (k - 1)) \<and>
         (\<forall>k emo c scs. 0 < k \<and> k mod 3 = 0 \<and>
            detect_emotion_try ext (frame_at ticks k) = Inr (emo, c, scs) \<and> emo \<noteq> ''unknown'' \<longrightarrow>
            last_reading ext ticks cur k = (emo, c))"
proof -
  let ?g = "start_camera OpenOk (gui_init tts fs)"
  from started_gui [of tts fs] have r: "gui_is_running ?g" and m: "maxsize (frame_queue ?g) = 0"
    and a0: "analyze_calls (trace (emotion_system ?g)) = []"
    and p0: "published (trace (emotion_system ?g)) = []"
    and s0: "stored_reading (emotion_system ?g) = (''Unknown'', 0)"
    by (simp_all add: loop_view_parts)
  from video_loop_run [OF assms r m, of ext] obtain g' where
    run: "video_loop ext ticks (LoopTop 0, ?g) = (LoopTop (length ticks), g')"
    and v: "loop_view (emotion_system g') =
             (analyze_calls (trace (emotion_system ?g)) @
                map (frame_at ticks) (filter (\<lambda>k. k mod 3 = 0) [1..<Suc (length ticks)]),
              published (trace (emotion_system ?g)) @
                map (last_reading ext ticks (stored_reading (emotion_system ?g)))
                  [1..<Suc (length ticks)],
              last_reading ext ticks (stored_reading (emotion_system ?g)) (length ticks))"
    by blast
  from v have a: "analyze_calls (trace (emotion_system g')) =
      map (frame_at ticks) (filter (\<lambda>k. k mod 3 = 0) [1..<Suc (length ticks)])"
    and p: "published (trace (emotion_system g')) =
      map (last_reading ext ticks (''Unknown'', 0)) [1..<Suc (length ticks)]"
    unfolding a0 p0 s0 by (simp_all add: loop_view_parts del: upt_Suc)
  have pv: "process_video ext ticks ?g = (LoopTop (length ticks), g')"
    by (simp add: process_video_def run)
  have 4: "\<forall>k. k mod 3 \<noteq> 0 \<longrightarrow>
            last_reading ext ticks cur k = last_reading ext ticks cur (k - 1)"
    by (simp add: last_reading_cases(1))
  have 5: "\<forall>k e. 0 < k \<and> detect_emotion_try ext (frame_at ticks k) = Inl e \<longrightarrow>
            last_reading ext ticks cur k = last_reading ext ticks cur (k - 1)"
  proof (intro allI impI)
    fix k e
    assume "0 < k \<and> detect_emotion_try ext (frame_at ticks k) = Inl e"
    then show "last_reading ext ticks cur k = last_reading ext ticks cur (k - 1)"
      using last_reading_cases(3) [of k ext ticks e cur] by simp
  qed
  have 6: "\<forall>k emo c scs. 0 < k \<and> k mod 3 = 0 \<and>
            detect_emotion_try ext (frame_at ticks k) = Inr (emo, c, scs) \<and> emo \<noteq> ''unknown'' \<longrightarrow>
            last_reading ext ticks cur k = (emo, c)"
  proof (intro allI impI)
    fix k emo c scs
    assume "0 < k \<and> k mod 3 = 0 \<and>
            detect_emotion_try ext (frame_at ticks k) = Inr (emo, c, scs) \<and> emo \<noteq> ''unknown''"
    then show "last_reading ext ticks cur k = (emo, c)"
      using last_reading_cases(2) [of k ext ticks emo c scs cur] by simp
  qed
  show ?thesis unfolding pv using a p 4 5 6 by simp
qed

lemma example_ticks_steady:
  "\<forall>t \<in> set example_video_ticks. steady t" "\<forall>t \<in> set example_video_ticks7. steady t"
  by (simp_all add: example_video_ticks7_def example_video_ticks_def example_tick_def steady_def)

lemma example_frames:
  "frame_at example_video_ticks7 3 = [[10, 20], [30, 40]]" "frame_at example_video_ticks7 6 = [[5]]"
  "frame_at example_video_ticks 3 = [[10, 20], [30, 40]]" "frame_at example_video_ticks 6 = [[5]]"
  by (simp_all add: frame_at_def example_video_ticks7_def example_video_ticks_def example_tick_def
      flip_horizontal_def)

lemma example_detections:
  "detect_emotion_try example_externals [[10, 20], [30, 40]] = Inr (''happy'', 82.3, example_scores)"
  "detect_emotion_try example_externals [[5]] = Inl ModelError"
  by (simp_all add: detect_emotion_try_def example_externals_def first_face_def example_face_def
      example_scores_def)

lemma last_reading_unfold:
  "0 < k \<Longrightarrow>
   last_reading ext ticks cur k =
     (if k mod 3 = 0
      then (case detect_emotion_try ext (frame_at ticks k) of
              Inr (emo, c, scs) \<Rightarrow>
                if emo \<noteq> ''unknown'' then (emo, c) else last_reading ext ticks cur (k - 1)
            | Inl e \<Rightarrow> last_reading ext ticks cur (k - 1))
      else last_reading ext ticks cur (k - 1))"
  by (cases k) (simp_all split: sum.splits prod.splits)

lemma example_ranges:
  "[1..<Suc 6] = [1, 2, 3, 4, 5, 6]" "[1..<Suc 7] = [1, 2, 3, 4, 5, 6, 7]"
  "filter (\<lambda>k. k mod 3 = 0) [1, 2, 3, 4, 5, 6 :: nat] = [3, 6]"
  by (simp_all add: upt_rec)

lemma example_readings_upto:
  "last_reading example_externals example_video_ticks (''Unknown'', 0) 1 = (''Unknown'', 0)"
  "last_reading example_externals example_video_ticks (''Unknown'', 0) 2 = (''Unknown'', 0)"
  "last_reading example_externals example_video_ticks (''Unknown'', 0) 3 = (''happy'', 82.3)"
  "last_reading example_externals example_video_ticks (''Unknown'', 0) 4 = (''happy'', 82.3)"
  "last_reading example_externals example_video_ticks (''Unknown'', 0) 5 = (''happy'', 82.3)"
  "last_reading example_externals example_video_ticks (''Unknown'', 0) 6 = (''happy'', 82.3)"
  by (simp_all add: last_reading_unfold example_frames example_detections)

lemma example_readings_upto7:
  "last_reading example_externals example_video_ticks7 (''Unknown'', 0) 1 = (''Unknown'', 0)"
  "last_reading example_externals example_video_ticks7 (''Unknown'', 0) 2 = (''Unknown'', 0)"
  "last_reading example_externals example_video_ticks7 (''Unknown'', 0) 3 = (''happy'', 82.3)"
  "last_reading example_externals example_video_ticks7 (''Unknown'', 0) 4 = (''happy'', 82.3)"
  "last_reading example_externals example_video_ticks7 (''Unknown'', 0) 5 = (''happy'', 82.3)"
  "last_reading example_externals example_video_ticks7 (''Unknown'', 0) 6 = (''happy'', 82.3)"
  "last_reading example_externals example_video_ticks7 (''Unknown'', 0) 7 = (''happy'', 82.3)"
  by (simp_all add: last_reading_unfold example_frames example_detections)

theorem video_loop_decimation_witness:
  "fst (process_video example_externals example_video_ticks (start_camera OpenOk (gui_init True Map.empty))) =
     LoopTop 6 \<and>
   analyze_calls (trace (emotion_system
     (snd (process_video example_externals example_video_ticks
             (start_camera OpenOk (gui_init True Map.empty)))))) = [[[10, 20], [30, 40]], [[5]]] \<and>
   published (trace (emotion_system
     (snd (process_video example_externals example_video_ticks
             (start_camera OpenOk (gui_init True Map.empty)))))) =
     [(''Unknown'', 0), (''Unknown'', 0), (''happy'', 82.3), (''happy'', 82.3), (''happy'', 82.3),
      (''happy'', 82.3)]"
proof -
  note a = video_loop_decimation [OF example_ticks_steady(1), where ext = example_externals
      and tts = True and fs = Map.empty and cur = "(''Unknown'', 0)"]
  have l: "length example_video_ticks = 6" by (simp add: example_video_ticks_def)
  have c: "map (frame_at example_video_ticks) (filter (\<lambda>k. k mod 3 = 0) [1..<Suc 6]) =
      [[[10, 20], [30, 40]], [[5]]]"
    unfolding example_ranges by (simp add: example_frames)
  have d: "map (last_reading example_externals example_video_ticks (''Unknown'', 0)) [1..<Suc 6] =
     [(''Unknown'', 0), (''Unknown'', 0), (''happy'', 82.3), (''happy'', 82.3), (''happy'', 82.3),
      (''happy'', 82.3)]"
    unfolding example_ranges by (simp add: example_readings_upto)
  from a show ?thesis unfolding l c d by blast
qed

text \<open>The claim as stated fails on the example run extended by a seventh tick: the last
  reading computed, on tick 6, is the sentinel, and tick 7 publishes (happy, 82.3).\<close>

theorem rendered_reading_counterexample:
  "detect_emotion_try example_externals (frame_at example_video_ticks7 6) = Inl ModelError \<and>
   fst (detect_emotion example_externals (frame_at example_video_ticks7 6)
          (system_init True Map.empty)) = (''unknown'', 0, []) \<and>
   fst (process_video example_externals example_video_ticks7
          (start_camera OpenOk (gui_init True Map.empty))) = LoopTop 7 \<and>
   published (trace (emotion_system
     (snd (process_video example_externals example_video_ticks7
             (start_camera OpenOk (gui_init True Map.empty)))))) ! 6 = (''happy'', 82.3)"
proof -
  let ?g = "start_camera OpenOk (gui_init True Map.empty)"
  have 1: "detect_emotion_try example_externals (frame_at example_video_ticks7 6) = Inl ModelError"
    by (simp add: example_frames example_detections)
  then have 2: "fst (detect_emotion example_externals (frame_at example_video_ticks7 6)
          (system_init True Map.empty)) = (''unknown'', 0, [])"
    by (simp add: detect_emotion_reading unknown_reading_def)
  have l: "length example_video_ticks7 = 7"
    by (simp add: example_video_ticks7_def example_video_ticks_def)
  from started_gui [of True Map.empty] have r: "gui_is_running ?g"
    and m: "maxsize (frame_queue ?g) = 0"
    and a0: "analyze_calls (trace (emotion_system ?g)) = []"
    and p0: "published (trace (emotion_system ?g)) = []"
    and s0: "stored_reading (emotion_system ?g) = (''Unknown'', 0)"
    by (simp_all add: loop_view_parts)
  from video_loop_run [OF example_ticks_steady(2) r m, of example_externals] obtain g' where
    run: "video_loop example_externals example_video_ticks7 (LoopTop 0, ?g) =
            (LoopTop (length example_video_ticks7), g')"
    and v: "loop_view (emotion_system g') =
             (analyze_calls (trace (emotion_system ?g)) @
                map (frame_at example_video_ticks7)
                  (filter (\<lambda>k. k mod 3 = 0) [1..<Suc (length example_video_ticks7)]),
              published (trace (emotion_system ?g)) @
                map (last_reading example_externals example_video_ticks7
                       (stored_reading (emotion_system ?g)))
                  [1..<Suc (length example_video_ticks7)],
              last_reading example_externals example_video_ticks7
                (stored_reading (emotion_system ?g)) (length example_video_ticks7))"
    by blast
  from v have p: "published (trace (emotion_system g')) =
      map (last_reading example_externals example_video_ticks7 (''Unknown'', 0)) [1..<Suc 7]"
    unfolding a0 p0 s0 l by (simp add: loop_view_parts del: upt_Suc)
  have pv: "process_video example_externals example_video_ticks7 ?g = (LoopTop 7, g')"
    using run l by (simp add: process_video_def)
  have "published (trace (emotion_system g')) ! 6 = (''happy'', 82.3)"
    unfolding p example_ranges by (simp add: example_readings_upto7)
  then show ?thesis unfolding pv using 1 2 by simp
qed

end
